theory Spec2Isabelle
  imports Main
begin

section \<open>Package openweathermap: names and application state\<close>

text \<open>
  The package-level instance names and the default publisher identifier of
  \<^verbatim>\<open>openweathermap.go\<close>. The Go constant \<^verbatim>\<open>PublisherID\<close> shares its name with
  the field of \<^verbatim>\<open>WeatherApp\<close>; the constant carries a suffix here.
\<close>

definition CurrentWeatherInst :: string where
  "CurrentWeatherInst = ''current''"

definition LastHourWeatherInst :: string where
  "LastHourWeatherInst = ''hour''"

definition ForecastWeatherInst :: string where
  "ForecastWeatherInst = ''forecast''"

definition PublisherID_const :: string where
  "PublisherID_const = ''openweathermap''"

record WeatherApp =
  Cities :: "string list"
  APIKey :: string
  PublisherID :: string

definition NewWeatherApp :: WeatherApp where
  "NewWeatherApp = \<lparr>Cities = [], APIKey = '''', PublisherID = PublisherID_const\<rparr>"


section \<open>Data of the framework's package \<^verbatim>\<open>standard\<close>\<close>

text \<open>
  The declarations of package \<^verbatim>\<open>standard\<close> are not part of the sources. What the
  adapter uses of them is declared here: the output types it names (taken as
  pairwise distinct), the one configuration data type it names, and the
  fields it reads or writes.
\<close>

datatype IOType =
    IOTypeWeather
  | IOTypeTemperature
  | IOTypeHumidity
  | IOTypeAtmosphericPressure
  | IOTypeWindHeading
  | IOTypeWindSpeed
  | IOTypeRain
  | IOTypeSnow

datatype DataType = DataTypeEnum

text \<open>\<^verbatim>\<open>time.Unix(sec, nsec)\<close>, kept as the pair of its arguments.\<close>

datatype Time = Unix int int

record HistoryValue =
  Timestamp :: Time
  Value :: string

type_synonym HistoryList = "HistoryValue list"

record ConfigAttr =
  ConfigID :: string
  ConfigDataType :: DataType
  ConfigDescription :: string
  Default :: string
  Value :: string

record Node =
  Zone :: string
  Publisher :: string
  ID :: string
  Config :: "string \<rightharpoonup> ConfigAttr"

type_synonym AttrMap = "string \<rightharpoonup> string"

text \<open>
  Modelled from the spec: \<^verbatim>\<open>standard.NewNode(zone, publisherID, nodeID)\<close> is missing
  from the sources. A node is "keyed by city name" and "owns a small config
  map"; a new node starts with no configuration entry.
\<close>

definition NewNode :: "string \<Rightarrow> string \<Rightarrow> string \<Rightarrow> Node" where
  "NewNode zone publisherID nodeID =
     \<lparr>Zone = zone, Publisher = publisherID, ID = nodeID, Config = Map.empty\<rparr>"

text \<open>
  Modelled from the spec: \<^verbatim>\<open>standard.NewConfig(id, dataType, description,
  defaultValue)\<close> is missing from the sources. The fourth argument is the
  entry's default ("a language preference (default en)"), which is also its
  value until a configuration changes it.
\<close>

definition NewConfig :: "string \<Rightarrow> DataType \<Rightarrow> string \<Rightarrow> string \<Rightarrow> ConfigAttr" where
  "NewConfig attrID dataType description defaultValue =
     \<lparr>ConfigID = attrID, ConfigDataType = dataType, ConfigDescription = description,
      Default = defaultValue, Value = defaultValue\<rparr>"


section \<open>Calls into the publisher framework\<close>

text \<open>
  The adapter changes nothing itself: every effect is a call of a method of
  the publisher state, and none of these methods returns a value to it. An
  operation of the adapter is therefore modelled by the list of framework
  calls it makes, in program order. \<open>PublishForecast\<close> is the framework's
  \<^verbatim>\<open>weatherPub.UpdateForecast\<close>, renamed apart from the adapter's own method.
\<close>

datatype call =
    UpdateNode Node
  | UpdateNodeConfig Node ConfigAttr
  | NewOutput Node IOType string
  | UpdateOutputValue Node IOType string string
  | SetErrorStatus Node string
  | PublishForecast Node IOType string HistoryList
  | LoggerInfo string

text \<open>
  Modelled from the spec: the publisher state is missing from the sources. It
  "maintains a registry of nodes and named outputs (type + instance pairs) per
  node", "an ordered map keyed by identifier"; an output is "identified by
  (node, type, instance)". The registry is a list of nodes keyed by \<open>ID\<close> and
  a list of output keys.
\<close>

record PublisherState =
  PublisherNode :: Node
  Nodes :: "Node list"
  Outputs :: "(string \<times> IOType \<times> string) list"

text \<open>
  Modelled from the spec: \<^verbatim>\<open>Nodes.GetAllNodes()\<close> is missing from the sources.
  It yields the nodes of the registry; the order in which the framework
  returns them is the order of the list.
\<close>

definition GetAllNodes :: "PublisherState \<Rightarrow> Node list" where
  "GetAllNodes weatherPub = Nodes weatherPub"

text \<open>
  Modelled from the spec: the framework's keyed lookup of a node is missing
  from the sources. A node is "keyed by city name".
\<close>

definition GetNodeByID :: "PublisherState \<Rightarrow> string \<Rightarrow> Node option" where
  "GetNodeByID weatherPub nodeID = find (\<lambda>n. ID n = nodeID) (Nodes weatherPub)"

text \<open>
  Modelled from the spec: what the framework's update-node-config does to one
  node is missing from the sources. The entry is attached with its default
  "unless overridden by prior config": an entry that is already there keeps
  its value.
\<close>

definition attach :: "ConfigAttr \<Rightarrow> Node \<Rightarrow> Node" where
  "attach attr n =
     n\<lparr>Config := (Config n)(ConfigID attr \<mapsto>
         (case Config n (ConfigID attr) of
            None \<Rightarrow> attr
          | Some prior \<Rightarrow> attr\<lparr>ConfigAttr.Value := ConfigAttr.Value prior\<rparr>))\<rparr>"

text \<open>
  Modelled from the spec: the framework's update-node, update-node-config and
  create-output operations are missing from the sources. Provisioning is to
  "create a node if absent, attach a language configuration entry", and to
  create outputs so that re-invoking "must not create duplicates". The fixed
  set of outputs is "never added to or removed afterward", so the calls that
  write values, forecasts, statuses and the log leave the registry as it is.
\<close>

fun exec :: "call \<Rightarrow> PublisherState \<Rightarrow> PublisherState" where
  "exec (UpdateNode node) pub =
     (if ID node \<in> ID ` set (Nodes pub) then pub
      else pub\<lparr>Nodes := Nodes pub @ [node]\<rparr>)"
| "exec (UpdateNodeConfig node attr) pub =
     pub\<lparr>Nodes := map (\<lambda>n. if ID n = ID node then attach attr n else n) (Nodes pub)\<rparr>"
| "exec (NewOutput node ioType instance) pub =
     (if (ID node, ioType, instance) \<in> set (Outputs pub) then pub
      else pub\<lparr>Outputs := Outputs pub @ [(ID node, ioType, instance)]\<rparr>)"
| "exec (UpdateOutputValue node ioType instance v) pub = pub"
| "exec (SetErrorStatus node msg) pub = pub"
| "exec (PublishForecast node ioType instance history) pub = pub"
| "exec (LoggerInfo msg) pub = pub"

text \<open>The registry after a list of calls, made in order.\<close>

definition run :: "call list \<Rightarrow> PublisherState \<Rightarrow> PublisherState" where
  "run calls pub = fold exec calls pub"


section \<open>The weather client and the formatting verbs\<close>

text \<open>
  The response types of the weather client are declared in a file that is
  not part of the sources; the fields below are the ones the adapter reads.
  Go's floating-point numbers are outside this embedding: the type \<open>'f\<close>
  stands for them. A slice field that the code compares with \<^verbatim>\<open>nil\<close> is an
  option: \<open>None\<close> is the nil slice, \<open>Some []\<close> an empty one.
\<close>

type_synonym error = string

record WeatherInfo =
  Description :: string

record 'f MainInfo =
  Temperature :: 'f
  Humidity :: int
  Pressure :: 'f

record 'f WindInfo =
  Speed :: 'f
  Heading :: 'f

record 'f Precipitation =
  LastHour :: 'f

record 'f CurrentWeather =
  Weather :: "WeatherInfo list"
  Main :: "'f MainInfo"
  Wind :: "'f WindInfo"
  Rain :: "'f Precipitation"
  Snow :: "'f Precipitation"

record 'f TempInfo =
  TempMax :: 'f
  TempMin :: 'f

record 'f Forecast =
  Date :: int
  Weather :: "WeatherInfo list"
  Temp :: "'f TempInfo"

record 'f DailyForecast =
  List :: "'f Forecast list option"

text \<open>
  What the adapter takes from outside the sources: the two functions of the
  weather client (spec: \<^verbatim>\<open>fetchCurrent(apiKey, city, language)\<close> and
  \<^verbatim>\<open>fetchDailyForecast(apiKey, city, language)\<close>, each a response or an error),
  the two floating-point uses of \<^verbatim>\<open>fmt.Sprintf\<close> (\<^verbatim>\<open>%.1f\<close> and \<^verbatim>\<open>%.0f\<close>), the
  floating-point product \<^verbatim>\<open>x*1000\<close>, and the framework's constant
  \<^verbatim>\<open>standard.PublisherNodeID\<close>.
\<close>

record 'f Env =
  GetCurrentWeather :: "string \<Rightarrow> string \<Rightarrow> string \<Rightarrow> error + 'f CurrentWeather"
  GetDailyForecast :: "string \<Rightarrow> string \<Rightarrow> string \<Rightarrow> error + 'f DailyForecast"
  Sprintf_1f :: "'f \<Rightarrow> string"
  Sprintf_0f :: "'f \<Rightarrow> string"
  times1000 :: "'f \<Rightarrow> 'f"
  PublisherNodeID :: string

text \<open>\<^verbatim>\<open>fmt.Sprintf("%d", i)\<close> of an integer: its decimal digits, with a sign.\<close>

fun digits :: "nat \<Rightarrow> string" where
  "digits n =
     (if n < 10 then [''0123456789'' ! n]
      else digits (n div 10) @ [''0123456789'' ! (n mod 10)])"

definition Sprintf_d :: "int \<Rightarrow> string" where
  "Sprintf_d i = (if i < 0 then CHR ''-'' # digits (nat (- i)) else digits (nat i))"

text \<open>
  \<^verbatim>\<open>node.Config["language"].Value\<close>: Go's lookup of an absent key yields the
  zero value, whose \<open>Value\<close> is the empty string.
\<close>

definition language :: "Node \<Rightarrow> string" where
  "language node =
     (case Config node ''language'' of
        None \<Rightarrow> ''''
      | Some c \<Rightarrow> ConfigAttr.Value c)"


section \<open>PublishNodes\<close>

text \<open>The body of the loop over the cities (lines 45 to 64).\<close>

definition PublishNodes_city :: "string \<Rightarrow> string \<Rightarrow> string \<Rightarrow> call list" where
  "PublishNodes_city zone publisherID city =
     (let cityNode = NewNode zone publisherID city;
          lc = NewConfig ''language'' DataTypeEnum
                 ''Reporting language. See https://openweathermap.org/current for more options''
                 ''en''
      in [UpdateNode cityNode,
          UpdateNodeConfig cityNode lc,
          NewOutput cityNode IOTypeWeather CurrentWeatherInst,
          NewOutput cityNode IOTypeTemperature CurrentWeatherInst,
          NewOutput cityNode IOTypeHumidity CurrentWeatherInst,
          NewOutput cityNode IOTypeAtmosphericPressure CurrentWeatherInst,
          NewOutput cityNode IOTypeWindHeading CurrentWeatherInst,
          NewOutput cityNode IOTypeWindSpeed CurrentWeatherInst,
          NewOutput cityNode IOTypeRain LastHourWeatherInst,
          NewOutput cityNode IOTypeSnow LastHourWeatherInst,
          NewOutput cityNode IOTypeWeather ForecastWeatherInst,
          NewOutput cityNode IOTypeTemperature ''max'',
          NewOutput cityNode IOTypeAtmosphericPressure ''min''])"

fun PublishNodes_loop :: "string \<Rightarrow> string \<Rightarrow> string list \<Rightarrow> call list" where
  "PublishNodes_loop zone publisherID [] = []"
| "PublishNodes_loop zone publisherID (city # cities) =
     PublishNodes_city zone publisherID city @ PublishNodes_loop zone publisherID cities"

definition PublishNodes :: "WeatherApp \<Rightarrow> PublisherState \<Rightarrow> call list" where
  "PublishNodes weatherApp weatherPub =
     (let pubNode = PublisherNode weatherPub;
          zone = Zone pubNode
      in PublishNodes_loop zone (PublisherID weatherApp) (Cities weatherApp))"


section \<open>UpdateWeather\<close>

text \<open>The eight value updates of one city (lines 90 to 101).\<close>

definition UpdateWeather_values :: "'f Env \<Rightarrow> Node \<Rightarrow> 'f CurrentWeather \<Rightarrow> call list" where
  "UpdateWeather_values env node currentWeather =
     (let weatherDescription =
            (if length (CurrentWeather.Weather currentWeather) > 0
             then Description (CurrentWeather.Weather currentWeather ! 0)
             else '''')
      in [UpdateOutputValue node IOTypeWeather CurrentWeatherInst weatherDescription,
          UpdateOutputValue node IOTypeTemperature CurrentWeatherInst
            (Sprintf_1f env (Temperature (Main currentWeather))),
          UpdateOutputValue node IOTypeHumidity CurrentWeatherInst
            (Sprintf_d (Humidity (Main currentWeather))),
          UpdateOutputValue node IOTypeAtmosphericPressure CurrentWeatherInst
            (Sprintf_0f env (Pressure (Main currentWeather))),
          UpdateOutputValue node IOTypeWindSpeed CurrentWeatherInst
            (Sprintf_1f env (Speed (Wind currentWeather))),
          UpdateOutputValue node IOTypeWindHeading CurrentWeatherInst
            (Sprintf_0f env (Heading (Wind currentWeather))),
          UpdateOutputValue node IOTypeRain LastHourWeatherInst
            (Sprintf_1f env (times1000 env (LastHour (Rain currentWeather)))),
          UpdateOutputValue node IOTypeSnow LastHourWeatherInst
            (Sprintf_1f env (times1000 env (LastHour (Snow currentWeather))))])"

text \<open>
  The loop over \<^verbatim>\<open>GetAllNodes()\<close> (lines 82 to 103). The \<^verbatim>\<open>return\<close> of line 88
  ends the loop: nothing follows the error status.
\<close>

fun UpdateWeather_loop :: "'f Env \<Rightarrow> string \<Rightarrow> Node list \<Rightarrow> call list" where
  "UpdateWeather_loop env apikey [] = []"
| "UpdateWeather_loop env apikey (node # nodes) =
     (if ID node \<noteq> PublisherNodeID env then
        (case GetCurrentWeather env apikey (ID node) (language node) of
           Inl err \<Rightarrow> [SetErrorStatus node ''Current weather not available'']
         | Inr currentWeather \<Rightarrow>
             UpdateWeather_values env node currentWeather
             @ UpdateWeather_loop env apikey nodes)
      else UpdateWeather_loop env apikey nodes)"

definition UpdateWeather :: "'f Env \<Rightarrow> WeatherApp \<Rightarrow> PublisherState \<Rightarrow> call list" where
  "UpdateWeather env weatherApp weatherPub =
     (let apikey = APIKey weatherApp
      in LoggerInfo ''UpdateWeather''
         # UpdateWeather_loop env apikey (GetAllNodes weatherPub))"


section \<open>UpdateForecast\<close>

text \<open>
  The inner loop over \<^verbatim>\<open>dailyForecast.List\<close> (lines 134 to 145) with its three
  accumulators. \<^verbatim>\<open>append(xs, v)\<close> yields the elements of \<open>xs\<close> followed by \<open>v\<close>.
  Line 144 appends to \<^verbatim>\<open>maxTempList\<close>, after line 143 has extended it, and
  assigns the result to \<^verbatim>\<open>minTempList\<close>. Each accumulator is read only through
  its latest assignment, so a backing array shared between the two slices
  does not change the values read.
\<close>

fun UpdateForecast_lists ::
  "'f Env \<Rightarrow> 'f Forecast list \<Rightarrow> HistoryList \<times> HistoryList \<times> HistoryList
     \<Rightarrow> HistoryList \<times> HistoryList \<times> HistoryList" where
  "UpdateForecast_lists env [] (weatherList, maxTempList, minTempList) =
     (weatherList, maxTempList, minTempList)"
| "UpdateForecast_lists env (forecast # rest) (weatherList, maxTempList, minTempList) =
     (let timestamp = Unix (Date forecast) 0;
          weatherDescription =
            (if length (Forecast.Weather forecast) > 0
             then Description (Forecast.Weather forecast ! 0)
             else '''');
          weatherList' = weatherList
            @ [\<lparr>Timestamp = timestamp, Value = weatherDescription\<rparr>];
          maxTempList' = maxTempList
            @ [\<lparr>Timestamp = timestamp, Value = Sprintf_1f env (TempMax (Temp forecast))\<rparr>];
          minTempList' = maxTempList'
            @ [\<lparr>Timestamp = timestamp, Value = Sprintf_1f env (TempMin (Temp forecast))\<rparr>]
      in UpdateForecast_lists env rest (weatherList', maxTempList', minTempList'))"

text \<open>The loop over \<^verbatim>\<open>GetAllNodes()\<close> (lines 117 to 151).\<close>

fun UpdateForecast_loop :: "'f Env \<Rightarrow> string \<Rightarrow> Node list \<Rightarrow> call list" where
  "UpdateForecast_loop env apikey [] = []"
| "UpdateForecast_loop env apikey (node # nodes) =
     (if ID node \<noteq> PublisherNodeID env then
        (case GetDailyForecast env apikey (ID node) (language node) of
           Inl err \<Rightarrow> [SetErrorStatus node ''Error getting the daily forecast'']
         | Inr dailyForecast \<Rightarrow>
             (case List dailyForecast of
                None \<Rightarrow> [SetErrorStatus node ''Daily forecast not provided'']
              | Some forecasts \<Rightarrow>
                  (case UpdateForecast_lists env forecasts ([], [], []) of
                     (weatherList, maxTempList, minTempList) \<Rightarrow>
                       [PublishForecast node IOTypeWeather ForecastWeatherInst weatherList,
                        PublishForecast node IOTypeTemperature ''max'' maxTempList,
                        PublishForecast node IOTypeTemperature ''min'' minTempList]
                       @ UpdateForecast_loop env apikey nodes)))
      else UpdateForecast_loop env apikey nodes)"

definition UpdateForecast :: "'f Env \<Rightarrow> WeatherApp \<Rightarrow> PublisherState \<Rightarrow> call list" where
  "UpdateForecast env weatherApp weatherPub =
     (let apikey = APIKey weatherApp
      in UpdateForecast_loop env apikey (GetAllNodes weatherPub))"


section \<open>OnNodeConfigHandler\<close>

text \<open>
  The handler returns \<^verbatim>\<open>nil\<close> (\<open>None\<close>). It is a method on a pointer to the
  application state and could change it; the model returns the state and the
  framework calls made beside the result.
\<close>

definition OnNodeConfigHandler ::
  "WeatherApp \<Rightarrow> Node \<Rightarrow> AttrMap \<Rightarrow> AttrMap option \<times> WeatherApp \<times> call list" where
  "OnNodeConfigHandler weatherApp node config = (None, weatherApp, [])"


section \<open>Vocabulary of the properties\<close>

text \<open>
  A node stops the weather cycle when it is not the publisher's own node and
  the client returns an error for it. \<open>UpdateWeather_city\<close> is what one
  visit of the loop contributes when it does not stop.
\<close>

definition weatherFails :: "'f Env \<Rightarrow> string \<Rightarrow> Node \<Rightarrow> bool" where
  "weatherFails env apikey node =
     (ID node \<noteq> PublisherNodeID env
      \<and> isl (GetCurrentWeather env apikey (ID node) (language node)))"

definition UpdateWeather_city :: "'f Env \<Rightarrow> string \<Rightarrow> Node \<Rightarrow> call list" where
  "UpdateWeather_city env apikey node =
     (if ID node \<noteq> PublisherNodeID env then
        (case GetCurrentWeather env apikey (ID node) (language node) of
           Inl err \<Rightarrow> []
         | Inr currentWeather \<Rightarrow> UpdateWeather_values env node currentWeather)
      else [])"

text \<open>
  A node stops the forecast cycle when it is not the publisher's own node and
  the client returns an error or a response whose list is nil.
\<close>

definition forecastFails :: "'f Env \<Rightarrow> string \<Rightarrow> Node \<Rightarrow> bool" where
  "forecastFails env apikey node =
     (ID node \<noteq> PublisherNodeID env
      \<and> (case GetDailyForecast env apikey (ID node) (language node) of
            Inl err \<Rightarrow> True
          | Inr dailyForecast \<Rightarrow> List dailyForecast = None))"

definition forecastError :: "'f Env \<Rightarrow> string \<Rightarrow> Node \<Rightarrow> string" where
  "forecastError env apikey node =
     (if isl (GetDailyForecast env apikey (ID node) (language node))
      then ''Error getting the daily forecast''
      else ''Daily forecast not provided'')"

definition UpdateForecast_city :: "'f Env \<Rightarrow> string \<Rightarrow> Node \<Rightarrow> call list" where
  "UpdateForecast_city env apikey node =
     (if ID node \<noteq> PublisherNodeID env then
        (case GetDailyForecast env apikey (ID node) (language node) of
           Inl err \<Rightarrow> []
         | Inr dailyForecast \<Rightarrow>
             (case List dailyForecast of
                None \<Rightarrow> []
              | Some forecasts \<Rightarrow>
                  (case UpdateForecast_lists env forecasts ([], [], []) of
                     (weatherList, maxTempList, minTempList) \<Rightarrow>
                       [PublishForecast node IOTypeWeather ForecastWeatherInst weatherList,
                        PublishForecast node IOTypeTemperature ''max'' maxTempList,
                        PublishForecast node IOTypeTemperature ''min'' minTempList])))
      else [])"

text \<open>The history entries of one forecast day.\<close>

definition weatherEntry :: "'f Forecast \<Rightarrow> HistoryValue" where
  "weatherEntry forecast =
     \<lparr>Timestamp = Unix (Date forecast) 0,
      Value = (case Forecast.Weather forecast of [] \<Rightarrow> '''' | w # ws \<Rightarrow> Description w)\<rparr>"

definition maxTempEntry :: "'f Env \<Rightarrow> 'f Forecast \<Rightarrow> HistoryValue" where
  "maxTempEntry env forecast =
     \<lparr>Timestamp = Unix (Date forecast) 0, Value = Sprintf_1f env (TempMax (Temp forecast))\<rparr>"

definition minTempEntry :: "'f Env \<Rightarrow> 'f Forecast \<Rightarrow> HistoryValue" where
  "minTempEntry env forecast =
     \<lparr>Timestamp = Unix (Date forecast) 0, Value = Sprintf_1f env (TempMin (Temp forecast))\<rparr>"

text \<open>What a list of calls creates, writes and reports.\<close>

fun createdBy :: "call \<Rightarrow> (string \<times> IOType \<times> string) list" where
  "createdBy (NewOutput node ioType instance) = [(ID node, ioType, instance)]"
| "createdBy c = []"

definition created :: "call list \<Rightarrow> (string \<times> IOType \<times> string) list" where
  "created calls = concat (map createdBy calls)"

fun writtenBy :: "string \<Rightarrow> IOType \<Rightarrow> string \<Rightarrow> call \<Rightarrow> string list" where
  "writtenBy nodeID ioType instance (UpdateOutputValue node t i v) =
     (if ID node = nodeID \<and> t = ioType \<and> i = instance then [v] else [])"
| "writtenBy nodeID ioType instance c = []"

definition written :: "call list \<Rightarrow> string \<Rightarrow> IOType \<Rightarrow> string \<Rightarrow> string list" where
  "written calls nodeID ioType instance = concat (map (writtenBy nodeID ioType instance) calls)"

fun statusBy :: "call \<Rightarrow> (string \<times> string) list" where
  "statusBy (SetErrorStatus node msg) = [(ID node, msg)]"
| "statusBy c = []"

definition statuses :: "call list \<Rightarrow> (string \<times> string) list" where
  "statuses calls = concat (map statusBy calls)"

text \<open>
  What \<open>PublishNodes\<close> attaches to and creates on the node of a city: the
  language entry of line 48 and the outputs of lines 52 to 64, by their keys.
\<close>

definition languageEntry :: ConfigAttr where
  "languageEntry =
     NewConfig ''language'' DataTypeEnum
       ''Reporting language. See https://openweathermap.org/current for more options''
       ''en''"

definition fixedOutputs :: "(IOType \<times> string) list" where
  "fixedOutputs =
     [(IOTypeWeather, ''current''),
      (IOTypeTemperature, ''current''),
      (IOTypeHumidity, ''current''),
      (IOTypeAtmosphericPressure, ''current''),
      (IOTypeWindHeading, ''current''),
      (IOTypeWindSpeed, ''current''),
      (IOTypeRain, ''hour''),
      (IOTypeSnow, ''hour''),
      (IOTypeWeather, ''forecast''),
      (IOTypeTemperature, ''max''),
      (IOTypeAtmosphericPressure, ''min'')]"

definition cityOutputs :: "string \<Rightarrow> (string \<times> IOType \<times> string) list" where
  "cityOutputs city = map (Pair city) fixedOutputs"

text \<open>
  The state of the registry in which provisioning a city changes nothing: the
  city has a node, every node of that name keeps its configuration when the
  entry is attached again, and the outputs of the city are there.
\<close>

definition provisioned :: "string \<Rightarrow> PublisherState \<Rightarrow> bool" where
  "provisioned city pub =
     (city \<in> ID ` set (Nodes pub)
      \<and> (\<forall>n\<in>set (Nodes pub). ID n = city \<longrightarrow> attach languageEntry n = n)
      \<and> set (cityOutputs city) \<subseteq> set (Outputs pub))"

text \<open>
  The language in force for a city: the value of its node's entry, and
  \<open>en\<close> where there is no node or no entry yet.
\<close>

definition languageInForce :: "PublisherState \<Rightarrow> string \<Rightarrow> string" where
  "languageInForce pub city =
     (case GetNodeByID pub city of
        None \<Rightarrow> ''en''
      | Some n \<Rightarrow>
          (case Config n ''language'' of
             None \<Rightarrow> ''en''
           | Some c \<Rightarrow> ConfigAttr.Value c))"

definition hasLanguageEntry :: "PublisherState \<Rightarrow> string \<Rightarrow> bool" where
  "hasLanguageEntry pub city =
     (case GetNodeByID pub city of
        None \<Rightarrow> False
      | Some n \<Rightarrow>
          (case Config n ''language'' of
             None \<Rightarrow> False
           | Some c \<Rightarrow> Default c = ''en''))"


section \<open>A test environment\<close>

text \<open>
  A weather client for four cities, with readings that are whole numbers:
  for these \<^verbatim>\<open>%.0f\<close> prints the digits and \<^verbatim>\<open>%.1f\<close> the digits followed by
  \<open>.0\<close>. Zurich is unknown to the client; the forecast of Berlin has an empty
  list and that of Cairo none.
\<close>

definition testWeather :: "int CurrentWeather" where
  "testWeather =
     \<lparr>CurrentWeather.Weather = [\<lparr>Description = ''light rain''\<rparr>],
      Main = \<lparr>Temperature = 21, Humidity = 60, Pressure = 1013\<rparr>,
      Wind = \<lparr>Speed = 5, Heading = 270\<rparr>,
      Rain = \<lparr>LastHour = 2\<rparr>,
      Snow = \<lparr>LastHour = 0\<rparr>\<rparr>"

definition testDay1 :: "int Forecast" where
  "testDay1 = \<lparr>Date = 1600000000, Weather = [\<lparr>Description = ''clear sky''\<rparr>],
               Temp = \<lparr>TempMax = 21, TempMin = 12\<rparr>\<rparr>"

definition testDay2 :: "int Forecast" where
  "testDay2 = \<lparr>Date = 1600086400, Weather = [],
               Temp = \<lparr>TempMax = 23, TempMin = 14\<rparr>\<rparr>"

definition testEnv :: "int Env" where
  "testEnv =
     \<lparr>GetCurrentWeather = (\<lambda>apikey city lang.
         if city = ''zurich'' then Inl ''city not found'' else Inr testWeather),
      GetDailyForecast = (\<lambda>apikey city lang.
         if city = ''amsterdam'' then Inr \<lparr>List = Some [testDay1, testDay2]\<rparr>
         else if city = ''berlin'' then Inr \<lparr>List = Some []\<rparr>
         else if city = ''cairo'' then Inr \<lparr>List = None\<rparr>
         else Inl ''city not found''),
      Sprintf_1f = (\<lambda>x. Sprintf_d x @ ''.0''),
      Sprintf_0f = Sprintf_d,
      times1000 = (\<lambda>x. x * 1000),
      PublisherNodeID = ''$publisher''\<rparr>"

definition testApp :: "string list \<Rightarrow> WeatherApp" where
  "testApp cities = \<lparr>Cities = cities, APIKey = ''key'', PublisherID = PublisherID_const\<rparr>"

definition testNode :: "string \<Rightarrow> Node" where
  "testNode city = attach (NewConfig ''language'' DataTypeEnum '''' ''en'')
                     (NewNode ''home'' PublisherID_const city)"

text \<open>A node of Amsterdam that an earlier configuration has set to Dutch.\<close>

definition testNodeDutch :: Node where
  "testNodeDutch =
     attach ((NewConfig ''language'' DataTypeEnum '''' ''en'')\<lparr>ConfigAttr.Value := ''nl''\<rparr>)
       (NewNode ''home'' PublisherID_const ''amsterdam'')"

definition testPublisherNode :: Node where
  "testPublisherNode = NewNode ''home'' PublisherID_const ''$publisher''"

definition testPub :: "Node list \<Rightarrow> PublisherState" where
  "testPub nodes = \<lparr>PublisherNode = testPublisherNode, Nodes = nodes, Outputs = []\<rparr>"


section \<open>Facts about the test environment\<close>

lemma testNode_ID [simp]: "ID (testNode city) = city"
  by (simp add: testNode_def attach_def NewNode_def)

lemma testNode_language [simp]: "language (testNode city) = ''en''"
  by (simp add: testNode_def attach_def NewNode_def NewConfig_def language_def)

lemma testPublisherNode_ID [simp]: "ID testPublisherNode = ''$publisher''"
  by (simp add: testPublisherNode_def NewNode_def)

lemma testEnv_PublisherNodeID [simp]: "PublisherNodeID testEnv = ''$publisher''"
  by (simp add: testEnv_def)

lemma testEnv_GetCurrentWeather [simp]:
  "GetCurrentWeather testEnv apikey city lang =
     (if city = ''zurich'' then Inl ''city not found'' else Inr testWeather)"
  by (simp add: testEnv_def)

lemma testEnv_GetDailyForecast [simp]:
  "GetDailyForecast testEnv apikey city lang =
     (if city = ''amsterdam'' then Inr \<lparr>List = Some [testDay1, testDay2]\<rparr>
      else if city = ''berlin'' then Inr \<lparr>List = Some []\<rparr>
      else if city = ''cairo'' then Inr \<lparr>List = None\<rparr>
      else Inl ''city not found'')"
  by (simp add: testEnv_def)

lemma testPub_GetAllNodes [simp]: "GetAllNodes (testPub nodes) = nodes"
  by (simp add: testPub_def GetAllNodes_def)

section \<open>The weather cycle\<close>

lemma UpdateWeather_loop_ok:
  "\<not> weatherFails env apikey node \<Longrightarrow>
     UpdateWeather_loop env apikey (node # nodes) =
       UpdateWeather_city env apikey node @ UpdateWeather_loop env apikey nodes"
  by (auto simp: weatherFails_def UpdateWeather_city_def split: sum.splits)

lemma UpdateWeather_loop_fails:
  "weatherFails env apikey node \<Longrightarrow>
     UpdateWeather_loop env apikey (node # nodes) =
       [SetErrorStatus node ''Current weather not available'']"
  by (auto simp: weatherFails_def split: sum.splits)

lemma UpdateWeather_loop_prefix:
  "\<forall>n\<in>set earlier. \<not> weatherFails env apikey n \<Longrightarrow>
     UpdateWeather_loop env apikey (earlier @ nodes) =
       concat (map (UpdateWeather_city env apikey) earlier) @ UpdateWeather_loop env apikey nodes"
proof (induction earlier)
  case Nil
  show ?case by simp
next
  case (Cons n earlier)
  then have "\<not> weatherFails env apikey n" by simp
  then have "UpdateWeather_loop env apikey (n # (earlier @ nodes)) =
      UpdateWeather_city env apikey n @ UpdateWeather_loop env apikey (earlier @ nodes)"
    by (rule UpdateWeather_loop_ok)
  with Cons show ?case by simp
qed

lemma UpdateWeather_city_reserved:
  "\<forall>n\<in>set reserved. ID n = PublisherNodeID env \<Longrightarrow>
     concat (map (UpdateWeather_city env apikey) reserved) = []"
  by (induction reserved) (simp_all add: UpdateWeather_city_def)

lemma UpdateWeather_city_values:
  "ID n \<noteq> PublisherNodeID env \<Longrightarrow>
   GetCurrentWeather env apikey (ID n) (language n) = Inr currentWeather \<Longrightarrow>
     UpdateWeather_city env apikey n = UpdateWeather_values env n currentWeather"
  by (simp add: UpdateWeather_city_def)

text \<open>
  C2. If the weather client returns an error for the first city that the
  cycle processes (only the publisher's own node, which is skipped, may come
  before it), the cycle makes two calls: the log line and the error status
  "Current weather not available" on that city's node. No output value of
  any city is updated and no later node is visited.
\<close>

theorem UpdateWeather_first_city_fails:
  assumes nodes: "GetAllNodes weatherPub = reserved @ node # rest"
    and reserved: "\<forall>n\<in>set reserved. ID n = PublisherNodeID env"
    and city: "ID node \<noteq> PublisherNodeID env"
    and err: "GetCurrentWeather env (APIKey weatherApp) (ID node) (language node) = Inl err"
  shows "UpdateWeather env weatherApp weatherPub =
           [LoggerInfo ''UpdateWeather'',
            SetErrorStatus node ''Current weather not available'']"
proof -
  let ?k = "APIKey weatherApp"
  from reserved have ok: "\<forall>n\<in>set reserved. \<not> weatherFails env ?k n"
    by (simp add: weatherFails_def)
  from city err have fails: "weatherFails env ?k node"
    by (simp add: weatherFails_def)
  have "UpdateWeather_loop env ?k (reserved @ node # rest) =
          concat (map (UpdateWeather_city env ?k) reserved)
          @ UpdateWeather_loop env ?k (node # rest)"
    using ok by (rule UpdateWeather_loop_prefix)
  also have "\<dots> = [SetErrorStatus node ''Current weather not available'']"
    using reserved fails
    by (simp add: UpdateWeather_city_reserved UpdateWeather_loop_fails
             del: UpdateWeather_loop.simps)
  finally show ?thesis
    using nodes by (simp add: UpdateWeather_def)
qed

theorem UpdateWeather_first_city_fails_witness:
  "GetAllNodes (testPub [testPublisherNode, testNode ''zurich'', testNode ''amsterdam''])
     = [testPublisherNode] @ testNode ''zurich'' # [testNode ''amsterdam'']
   \<and> ID testPublisherNode = PublisherNodeID testEnv
   \<and> ID (testNode ''zurich'') \<noteq> PublisherNodeID testEnv
   \<and> GetCurrentWeather testEnv (APIKey (testApp [])) (ID (testNode ''zurich''))
        (language (testNode ''zurich'')) = Inl ''city not found''
   \<and> UpdateWeather testEnv (testApp [])
        (testPub [testPublisherNode, testNode ''zurich'', testNode ''amsterdam''])
      = [LoggerInfo ''UpdateWeather'',
         SetErrorStatus (testNode ''zurich'') ''Current weather not available'']"
proof -
  have h1: "GetAllNodes (testPub [testPublisherNode, testNode ''zurich'', testNode ''amsterdam''])
     = [testPublisherNode] @ testNode ''zurich'' # [testNode ''amsterdam'']"
    by simp
  have h2: "\<forall>n\<in>set [testPublisherNode]. ID n = PublisherNodeID testEnv"
    by simp
  have h3: "ID (testNode ''zurich'') \<noteq> PublisherNodeID testEnv"
    by simp
  have h4: "GetCurrentWeather testEnv (APIKey (testApp [])) (ID (testNode ''zurich''))
        (language (testNode ''zurich'')) = Inl ''city not found''"
    by simp
  from UpdateWeather_first_city_fails [OF h1 h2 h3 h4] h1 h2 h3 h4
  show ?thesis by simp
qed

lemma statuses_append [simp]: "statuses (xs @ ys) = statuses xs @ statuses ys"
  by (simp add: statuses_def)

lemma statuses_Cons [simp]: "statuses (c # calls) = statusBy c @ statuses calls"
  by (simp add: statuses_def)

lemma statuses_Nil [simp]: "statuses [] = []"
  by (simp add: statuses_def)

lemma statuses_UpdateWeather_city: "statuses (UpdateWeather_city env apikey n) = []"
  by (simp add: UpdateWeather_city_def UpdateWeather_values_def split: sum.splits)

lemma statuses_UpdateWeather_cities:
  "statuses (concat (map (UpdateWeather_city env apikey) nodes)) = []"
  by (induction nodes) (simp_all add: statuses_UpdateWeather_city)

text \<open>
  C10. If the weather client fails for a city that earlier cities precede,
  the calls of the cycle are the log line, the calls for every earlier city
  in order, and the error status on the failing city. The calls for an
  earlier city are the eight calls of \<^verbatim>\<open>UpdateOutputValue\<close> of lines 94 to 101
  with the values of its response (none for the publisher's own node): they
  are made before the failure and no later call takes them back. The only
  error status of the cycle is the one on the failing city, and the cities
  after it get no call at all.
\<close>

theorem UpdateWeather_later_city_fails:
  assumes nodes: "GetAllNodes weatherPub = earlier @ node # rest"
    and ok: "\<forall>n\<in>set earlier. \<not> weatherFails env (APIKey weatherApp) n"
    and fails: "weatherFails env (APIKey weatherApp) node"
  shows "UpdateWeather env weatherApp weatherPub =
           LoggerInfo ''UpdateWeather''
           # concat (map (UpdateWeather_city env (APIKey weatherApp)) earlier)
           @ [SetErrorStatus node ''Current weather not available'']
         \<and> (\<forall>n\<in>set earlier.
               if ID n = PublisherNodeID env
               then UpdateWeather_city env (APIKey weatherApp) n = []
               else \<exists>currentWeather.
                 GetCurrentWeather env (APIKey weatherApp) (ID n) (language n)
                   = Inr currentWeather
                 \<and> UpdateWeather_city env (APIKey weatherApp) n =
                     [UpdateOutputValue n IOTypeWeather ''current''
                        (case CurrentWeather.Weather currentWeather of
                           [] \<Rightarrow> ''''
                         | w # ws \<Rightarrow> Description w),
                      UpdateOutputValue n IOTypeTemperature ''current''
                        (Sprintf_1f env (Temperature (Main currentWeather))),
                      UpdateOutputValue n IOTypeHumidity ''current''
                        (Sprintf_d (Humidity (Main currentWeather))),
                      UpdateOutputValue n IOTypeAtmosphericPressure ''current''
                        (Sprintf_0f env (Pressure (Main currentWeather))),
                      UpdateOutputValue n IOTypeWindSpeed ''current''
                        (Sprintf_1f env (Speed (Wind currentWeather))),
                      UpdateOutputValue n IOTypeWindHeading ''current''
                        (Sprintf_0f env (Heading (Wind currentWeather))),
                      UpdateOutputValue n IOTypeRain ''hour''
                        (Sprintf_1f env (times1000 env (LastHour (Rain currentWeather)))),
                      UpdateOutputValue n IOTypeSnow ''hour''
                        (Sprintf_1f env (times1000 env (LastHour (Snow currentWeather))))])
         \<and> statuses (UpdateWeather env weatherApp weatherPub)
             = [(ID node, ''Current weather not available'')]"
proof -
  let ?k = "APIKey weatherApp"
  have "UpdateWeather_loop env ?k (earlier @ node # rest) =
          concat (map (UpdateWeather_city env ?k) earlier)
          @ UpdateWeather_loop env ?k (node # rest)"
    using ok by (rule UpdateWeather_loop_prefix)
  with fails nodes have eq: "UpdateWeather env weatherApp weatherPub =
           LoggerInfo ''UpdateWeather''
           # concat (map (UpdateWeather_city env ?k) earlier)
           @ [SetErrorStatus node ''Current weather not available'']"
    by (simp add: UpdateWeather_def UpdateWeather_loop_fails del: UpdateWeather_loop.simps)
  have city: "if ID n = PublisherNodeID env
       then UpdateWeather_city env ?k n = []
       else \<exists>currentWeather.
         GetCurrentWeather env ?k (ID n) (language n) = Inr currentWeather
         \<and> UpdateWeather_city env ?k n =
             [UpdateOutputValue n IOTypeWeather ''current''
                (case CurrentWeather.Weather currentWeather of
                   [] \<Rightarrow> ''''
                 | w # ws \<Rightarrow> Description w),
              UpdateOutputValue n IOTypeTemperature ''current''
                (Sprintf_1f env (Temperature (Main currentWeather))),
              UpdateOutputValue n IOTypeHumidity ''current''
                (Sprintf_d (Humidity (Main currentWeather))),
              UpdateOutputValue n IOTypeAtmosphericPressure ''current''
                (Sprintf_0f env (Pressure (Main currentWeather))),
              UpdateOutputValue n IOTypeWindSpeed ''current''
                (Sprintf_1f env (Speed (Wind currentWeather))),
              UpdateOutputValue n IOTypeWindHeading ''current''
                (Sprintf_0f env (Heading (Wind currentWeather))),
              UpdateOutputValue n IOTypeRain ''hour''
                (Sprintf_1f env (times1000 env (LastHour (Rain currentWeather)))),
              UpdateOutputValue n IOTypeSnow ''hour''
                (Sprintf_1f env (times1000 env (LastHour (Snow currentWeather))))]"
    if n: "n \<in> set earlier" for n
  proof (cases "ID n = PublisherNodeID env")
    case True
    then show ?thesis by (simp add: UpdateWeather_city_def)
  next
    case False
    from ok n have "\<not> weatherFails env ?k n" by blast
    with False obtain currentWeather
      where resp: "GetCurrentWeather env ?k (ID n) (language n) = Inr currentWeather"
      by (cases "GetCurrentWeather env ?k (ID n) (language n)") (simp_all add: weatherFails_def)
    have "UpdateWeather_city env ?k n = UpdateWeather_values env n currentWeather"
      using False resp by (rule UpdateWeather_city_values)
    then show ?thesis
      using False resp
      by (simp add: UpdateWeather_values_def CurrentWeatherInst_def LastHourWeatherInst_def
            split: list.splits)
  qed
  have "statuses (UpdateWeather env weatherApp weatherPub)
          = [(ID node, ''Current weather not available'')]"
    unfolding eq by (simp add: statuses_UpdateWeather_cities)
  with eq city show ?thesis by blast
qed

theorem UpdateWeather_later_city_fails_witness:
  "GetAllNodes (testPub [testPublisherNode, testNode ''amsterdam'', testNode ''zurich'',
                         testNode ''berlin''])
     = [testPublisherNode, testNode ''amsterdam''] @ testNode ''zurich'' # [testNode ''berlin'']
   \<and> \<not> weatherFails testEnv (APIKey (testApp [])) testPublisherNode
   \<and> \<not> weatherFails testEnv (APIKey (testApp [])) (testNode ''amsterdam'')
   \<and> weatherFails testEnv (APIKey (testApp [])) (testNode ''zurich'')
   \<and> UpdateWeather testEnv (testApp [])
        (testPub [testPublisherNode, testNode ''amsterdam'', testNode ''zurich'',
                  testNode ''berlin''])
      = [LoggerInfo ''UpdateWeather'',
         UpdateOutputValue (testNode ''amsterdam'') IOTypeWeather ''current'' ''light rain'',
         UpdateOutputValue (testNode ''amsterdam'') IOTypeTemperature ''current'' ''21.0'',
         UpdateOutputValue (testNode ''amsterdam'') IOTypeHumidity ''current'' ''60'',
         UpdateOutputValue (testNode ''amsterdam'') IOTypeAtmosphericPressure ''current'' ''1013'',
         UpdateOutputValue (testNode ''amsterdam'') IOTypeWindSpeed ''current'' ''5.0'',
         UpdateOutputValue (testNode ''amsterdam'') IOTypeWindHeading ''current'' ''270'',
         UpdateOutputValue (testNode ''amsterdam'') IOTypeRain ''hour'' ''2000.0'',
         UpdateOutputValue (testNode ''amsterdam'') IOTypeSnow ''hour'' ''0.0'',
         SetErrorStatus (testNode ''zurich'') ''Current weather not available'']
   \<and> written (UpdateWeather testEnv (testApp [])
        (testPub [testPublisherNode, testNode ''amsterdam'', testNode ''zurich'',
                  testNode ''berlin'']))
        ''amsterdam'' IOTypeTemperature ''current'' = [''21.0'']
   \<and> statuses (UpdateWeather testEnv (testApp [])
        (testPub [testPublisherNode, testNode ''amsterdam'', testNode ''zurich'',
                  testNode ''berlin'']))
      = [(''zurich'', ''Current weather not available'')]"
proof -
  let ?pub = "testPub [testPublisherNode, testNode ''amsterdam'', testNode ''zurich'',
                       testNode ''berlin'']"
  let ?k = "APIKey (testApp [])"
  have h1: "GetAllNodes ?pub
     = [testPublisherNode, testNode ''amsterdam''] @ testNode ''zurich'' # [testNode ''berlin'']"
    by simp
  have h2: "\<forall>n\<in>set [testPublisherNode, testNode ''amsterdam''].
         \<not> weatherFails testEnv ?k n"
    by (simp add: weatherFails_def)
  have h3: "weatherFails testEnv ?k (testNode ''zurich'')"
    by (simp add: weatherFails_def)
  note inst = UpdateWeather_later_city_fails [OF h1 h2 h3]
  from inst have eq: "UpdateWeather testEnv (testApp []) ?pub
      = LoggerInfo ''UpdateWeather''
        # concat (map (UpdateWeather_city testEnv ?k) [testPublisherNode, testNode ''amsterdam''])
        @ [SetErrorStatus (testNode ''zurich'') ''Current weather not available'']"
    by blast
  from inst have "UpdateWeather_city testEnv ?k testPublisherNode = []"
    by simp
  moreover from inst have "UpdateWeather_city testEnv ?k (testNode ''amsterdam'') =
        [UpdateOutputValue (testNode ''amsterdam'') IOTypeWeather ''current''
           (case CurrentWeather.Weather testWeather of [] \<Rightarrow> '''' | w # ws \<Rightarrow> Description w),
         UpdateOutputValue (testNode ''amsterdam'') IOTypeTemperature ''current''
           (Sprintf_1f testEnv (Temperature (Main testWeather))),
         UpdateOutputValue (testNode ''amsterdam'') IOTypeHumidity ''current''
           (Sprintf_d (Humidity (Main testWeather))),
         UpdateOutputValue (testNode ''amsterdam'') IOTypeAtmosphericPressure ''current''
           (Sprintf_0f testEnv (Pressure (Main testWeather))),
         UpdateOutputValue (testNode ''amsterdam'') IOTypeWindSpeed ''current''
           (Sprintf_1f testEnv (Speed (Wind testWeather))),
         UpdateOutputValue (testNode ''amsterdam'') IOTypeWindHeading ''current''
           (Sprintf_0f testEnv (Heading (Wind testWeather))),
         UpdateOutputValue (testNode ''amsterdam'') IOTypeRain ''hour''
           (Sprintf_1f testEnv (times1000 testEnv (LastHour (Rain testWeather)))),
         UpdateOutputValue (testNode ''amsterdam'') IOTypeSnow ''hour''
           (Sprintf_1f testEnv (times1000 testEnv (LastHour (Snow testWeather))))]"
    by simp
  ultimately have trace: "UpdateWeather testEnv (testApp []) ?pub
      = [LoggerInfo ''UpdateWeather'',
         UpdateOutputValue (testNode ''amsterdam'') IOTypeWeather ''current'' ''light rain'',
         UpdateOutputValue (testNode ''amsterdam'') IOTypeTemperature ''current'' ''21.0'',
         UpdateOutputValue (testNode ''amsterdam'') IOTypeHumidity ''current'' ''60'',
         UpdateOutputValue (testNode ''amsterdam'') IOTypeAtmosphericPressure ''current'' ''1013'',
         UpdateOutputValue (testNode ''amsterdam'') IOTypeWindSpeed ''current'' ''5.0'',
         UpdateOutputValue (testNode ''amsterdam'') IOTypeWindHeading ''current'' ''270'',
         UpdateOutputValue (testNode ''amsterdam'') IOTypeRain ''hour'' ''2000.0'',
         UpdateOutputValue (testNode ''amsterdam'') IOTypeSnow ''hour'' ''0.0'',
         SetErrorStatus (testNode ''zurich'') ''Current weather not available'']"
    unfolding eq by (simp add: testWeather_def testEnv_def Sprintf_d_def)
  have w: "written (UpdateWeather testEnv (testApp []) ?pub)
             ''amsterdam'' IOTypeTemperature ''current'' = [''21.0'']"
    unfolding trace by (simp add: written_def)
  have s: "statuses (UpdateWeather testEnv (testApp []) ?pub)
             = [(''zurich'', ''Current weather not available'')]"
    unfolding trace by simp
  from h1 h2 h3 trace w s show ?thesis by simp
qed

text \<open>
  C5. When the cycle reaches a city and the client returns a response for
  it, the calls for that city are the eight value updates of the response,
  and the one value they write to the city's (weather, current) output is the
  empty string when the response's list of weather descriptions is empty and
  the description of the list's first entry otherwise.
\<close>

theorem UpdateWeather_description:
  assumes nodes: "GetAllNodes weatherPub = earlier @ node # rest"
    and ok: "\<forall>n\<in>set earlier. \<not> weatherFails env (APIKey weatherApp) n"
    and city: "ID node \<noteq> PublisherNodeID env"
    and resp: "GetCurrentWeather env (APIKey weatherApp) (ID node) (language node)
                 = Inr currentWeather"
  shows "UpdateWeather env weatherApp weatherPub =
           LoggerInfo ''UpdateWeather''
           # concat (map (UpdateWeather_city env (APIKey weatherApp)) earlier)
           @ UpdateWeather_values env node currentWeather
           @ UpdateWeather_loop env (APIKey weatherApp) rest
         \<and> written (UpdateWeather_values env node currentWeather)
               (ID node) IOTypeWeather CurrentWeatherInst =
             [case CurrentWeather.Weather currentWeather of
                [] \<Rightarrow> ''''
              | w # ws \<Rightarrow> Description w]"
proof -
  let ?k = "APIKey weatherApp"
  have "UpdateWeather_loop env ?k (earlier @ node # rest) =
          concat (map (UpdateWeather_city env ?k) earlier)
          @ UpdateWeather_loop env ?k (node # rest)"
    using ok by (rule UpdateWeather_loop_prefix)
  moreover have "UpdateWeather_loop env ?k (node # rest) =
      UpdateWeather_values env node currentWeather @ UpdateWeather_loop env ?k rest"
    using city resp by simp
  ultimately have "UpdateWeather env weatherApp weatherPub =
           LoggerInfo ''UpdateWeather''
           # concat (map (UpdateWeather_city env ?k) earlier)
           @ UpdateWeather_values env node currentWeather
           @ UpdateWeather_loop env ?k rest"
    using nodes by (simp add: UpdateWeather_def del: UpdateWeather_loop.simps)
  moreover have "written (UpdateWeather_values env node currentWeather)
               (ID node) IOTypeWeather CurrentWeatherInst =
             [case CurrentWeather.Weather currentWeather of
                [] \<Rightarrow> ''''
              | w # ws \<Rightarrow> Description w]"
    by (simp add: written_def UpdateWeather_values_def split: list.splits)
  ultimately show ?thesis by blast
qed

theorem UpdateWeather_description_witness:
  "GetAllNodes (testPub [testPublisherNode, testNode ''amsterdam'', testNode ''zurich''])
     = [testPublisherNode] @ testNode ''amsterdam'' # [testNode ''zurich'']
   \<and> \<not> weatherFails testEnv (APIKey (testApp [])) testPublisherNode
   \<and> ID (testNode ''amsterdam'') \<noteq> PublisherNodeID testEnv
   \<and> GetCurrentWeather testEnv (APIKey (testApp [])) (ID (testNode ''amsterdam''))
        (language (testNode ''amsterdam'')) = Inr testWeather
   \<and> written (UpdateWeather_values testEnv (testNode ''amsterdam'') testWeather)
        (ID (testNode ''amsterdam'')) IOTypeWeather CurrentWeatherInst = [''light rain'']"
proof -
  have h1: "GetAllNodes (testPub [testPublisherNode, testNode ''amsterdam'', testNode ''zurich''])
     = [testPublisherNode] @ testNode ''amsterdam'' # [testNode ''zurich'']"
    by simp
  have h2: "\<forall>n\<in>set [testPublisherNode]. \<not> weatherFails testEnv (APIKey (testApp [])) n"
    by (simp add: weatherFails_def)
  have h3: "ID (testNode ''amsterdam'') \<noteq> PublisherNodeID testEnv"
    by simp
  have h4: "GetCurrentWeather testEnv (APIKey (testApp [])) (ID (testNode ''amsterdam''))
        (language (testNode ''amsterdam'')) = Inr testWeather"
    by simp
  have "written (UpdateWeather_values testEnv (testNode ''amsterdam'') testWeather)
        (ID (testNode ''amsterdam'')) IOTypeWeather CurrentWeatherInst =
          [case CurrentWeather.Weather testWeather of [] \<Rightarrow> '''' | w # ws \<Rightarrow> Description w]"
    using UpdateWeather_description [OF h1 h2 h3 h4] by blast
  then have "written (UpdateWeather_values testEnv (testNode ''amsterdam'') testWeather)
        (ID (testNode ''amsterdam'')) IOTypeWeather CurrentWeatherInst = [''light rain'']"
    by (simp add: testWeather_def)
  with h1 h2 h3 h4 show ?thesis by simp
qed


section \<open>The forecast cycle\<close>

lemma UpdateForecast_lists_acc:
  "UpdateForecast_lists env forecasts (weatherList, maxTempList, minTempList) =
     (weatherList @ map weatherEntry forecasts,
      maxTempList @ map (maxTempEntry env) forecasts,
      if forecasts = [] then minTempList
      else maxTempList @ map (maxTempEntry env) forecasts @ [minTempEntry env (last forecasts)])"
proof (induction forecasts arbitrary: weatherList maxTempList minTempList)
  case Nil
  show ?case by simp
next
  case (Cons forecast rest)
  have descr: "(if length (Forecast.Weather forecast) > 0
                then Description (Forecast.Weather forecast ! 0) else '''')
               = HistoryValue.Value (weatherEntry forecast)"
    by (simp add: weatherEntry_def split: list.splits)
  show ?case
    by (simp add: Cons.IH Let_def descr del: length_greater_0_conv)
       (simp add: weatherEntry_def maxTempEntry_def minTempEntry_def)
qed

lemma UpdateForecast_lists_start:
  "UpdateForecast_lists env forecasts ([], [], []) =
     (map weatherEntry forecasts,
      map (maxTempEntry env) forecasts,
      if forecasts = [] then []
      else map (maxTempEntry env) forecasts @ [minTempEntry env (last forecasts)])"
  by (simp add: UpdateForecast_lists_acc)

lemma UpdateForecast_loop_ok:
  "\<not> forecastFails env apikey node \<Longrightarrow>
     UpdateForecast_loop env apikey (node # nodes) =
       UpdateForecast_city env apikey node @ UpdateForecast_loop env apikey nodes"
  by (auto simp: forecastFails_def UpdateForecast_city_def split: sum.splits option.splits prod.splits)

lemma UpdateForecast_loop_fails:
  "forecastFails env apikey node \<Longrightarrow>
     UpdateForecast_loop env apikey (node # nodes) =
       [SetErrorStatus node (forecastError env apikey node)]"
  by (auto simp: forecastFails_def forecastError_def split: sum.splits option.splits)

lemma UpdateForecast_loop_prefix:
  "\<forall>n\<in>set earlier. \<not> forecastFails env apikey n \<Longrightarrow>
     UpdateForecast_loop env apikey (earlier @ nodes) =
       concat (map (UpdateForecast_city env apikey) earlier) @ UpdateForecast_loop env apikey nodes"
proof (induction earlier)
  case Nil
  show ?case by simp
next
  case (Cons n earlier)
  then have "\<not> forecastFails env apikey n" by simp
  then have "UpdateForecast_loop env apikey (n # (earlier @ nodes)) =
      UpdateForecast_city env apikey n @ UpdateForecast_loop env apikey (earlier @ nodes)"
    by (rule UpdateForecast_loop_ok)
  with Cons show ?case by simp
qed

lemma UpdateForecast_loop_lists:
  "ID node \<noteq> PublisherNodeID env \<Longrightarrow>
   GetDailyForecast env apikey (ID node) (language node) = Inr dailyForecast \<Longrightarrow>
   List dailyForecast = Some forecasts \<Longrightarrow>
     UpdateForecast_loop env apikey (node # nodes) =
       [PublishForecast node IOTypeWeather ForecastWeatherInst (map weatherEntry forecasts),
        PublishForecast node IOTypeTemperature ''max'' (map (maxTempEntry env) forecasts),
        PublishForecast node IOTypeTemperature ''min''
          (if forecasts = [] then []
           else map (maxTempEntry env) forecasts @ [minTempEntry env (last forecasts)])]
       @ UpdateForecast_loop env apikey nodes"
  by (simp add: UpdateForecast_lists_start)

lemma UpdateForecast_prefix:
  "GetAllNodes weatherPub = earlier @ node # rest \<Longrightarrow>
   \<forall>n\<in>set earlier. \<not> forecastFails env (APIKey weatherApp) n \<Longrightarrow>
     UpdateForecast env weatherApp weatherPub =
       concat (map (UpdateForecast_city env (APIKey weatherApp)) earlier)
       @ UpdateForecast_loop env (APIKey weatherApp) (node # rest)"
  by (simp add: UpdateForecast_def UpdateForecast_loop_prefix del: UpdateForecast_loop.simps)

text \<open>
  C4. When the cycle reaches a city whose forecast has a list, the list
  published as the (temperature, min) forecast is not built from the minimum
  temperatures of the days: it is the whole maximum-temperature list followed
  by one entry, the minimum of the last day (and empty when there is no day).
  The (temperature, max) forecast is the list of the maxima. For a forecast
  of at least one day the published minimum list therefore differs from the
  list of the minima.
\<close>

theorem UpdateForecast_min_list:
  assumes nodes: "GetAllNodes weatherPub = earlier @ node # rest"
    and ok: "\<forall>n\<in>set earlier. \<not> forecastFails env (APIKey weatherApp) n"
    and city: "ID node \<noteq> PublisherNodeID env"
    and resp: "GetDailyForecast env (APIKey weatherApp) (ID node) (language node)
                 = Inr dailyForecast"
    and list: "List dailyForecast = Some forecasts"
  shows "UpdateForecast env weatherApp weatherPub =
           concat (map (UpdateForecast_city env (APIKey weatherApp)) earlier)
           @ [PublishForecast node IOTypeWeather ForecastWeatherInst
                (map weatherEntry forecasts),
              PublishForecast node IOTypeTemperature ''max''
                (map (maxTempEntry env) forecasts),
              PublishForecast node IOTypeTemperature ''min''
                (if forecasts = [] then []
                 else map (maxTempEntry env) forecasts @ [minTempEntry env (last forecasts)])]
           @ UpdateForecast_loop env (APIKey weatherApp) rest
         \<and> (forecasts = [] \<or>
              map (maxTempEntry env) forecasts @ [minTempEntry env (last forecasts)]
                \<noteq> map (minTempEntry env) forecasts)"
proof -
  have "length (map (maxTempEntry env) forecasts @ [minTempEntry env (last forecasts)])
          \<noteq> length (map (minTempEntry env) forecasts)"
    by simp
  then have "map (maxTempEntry env) forecasts @ [minTempEntry env (last forecasts)]
                \<noteq> map (minTempEntry env) forecasts"
    by metis
  then show ?thesis
    using UpdateForecast_prefix [OF nodes ok] UpdateForecast_loop_lists [OF city resp list]
    by simp
qed

theorem UpdateForecast_min_list_witness:
  "GetAllNodes (testPub [testPublisherNode, testNode ''amsterdam'', testNode ''zurich''])
     = [testPublisherNode] @ testNode ''amsterdam'' # [testNode ''zurich'']
   \<and> \<not> forecastFails testEnv (APIKey (testApp [])) testPublisherNode
   \<and> ID (testNode ''amsterdam'') \<noteq> PublisherNodeID testEnv
   \<and> GetDailyForecast testEnv (APIKey (testApp [])) (ID (testNode ''amsterdam''))
        (language (testNode ''amsterdam'')) = Inr \<lparr>List = Some [testDay1, testDay2]\<rparr>
   \<and> List \<lparr>List = Some [testDay1, testDay2]\<rparr> = Some [testDay1, testDay2]
   \<and> UpdateForecast testEnv (testApp [])
        (testPub [testPublisherNode, testNode ''amsterdam'', testNode ''zurich''])
      = [PublishForecast (testNode ''amsterdam'') IOTypeWeather ''forecast''
           [\<lparr>Timestamp = Unix 1600000000 0, Value = ''clear sky''\<rparr>,
            \<lparr>Timestamp = Unix 1600086400 0, Value = ''''\<rparr>],
         PublishForecast (testNode ''amsterdam'') IOTypeTemperature ''max''
           [\<lparr>Timestamp = Unix 1600000000 0, Value = ''21.0''\<rparr>,
            \<lparr>Timestamp = Unix 1600086400 0, Value = ''23.0''\<rparr>],
         PublishForecast (testNode ''amsterdam'') IOTypeTemperature ''min''
           [\<lparr>Timestamp = Unix 1600000000 0, Value = ''21.0''\<rparr>,
            \<lparr>Timestamp = Unix 1600086400 0, Value = ''23.0''\<rparr>,
            \<lparr>Timestamp = Unix 1600086400 0, Value = ''14.0''\<rparr>],
         SetErrorStatus (testNode ''zurich'') ''Error getting the daily forecast'']"
proof -
  have h1: "GetAllNodes (testPub [testPublisherNode, testNode ''amsterdam'', testNode ''zurich''])
     = [testPublisherNode] @ testNode ''amsterdam'' # [testNode ''zurich'']"
    by simp
  have h2: "\<forall>n\<in>set [testPublisherNode]. \<not> forecastFails testEnv (APIKey (testApp [])) n"
    by (simp add: forecastFails_def)
  have h3: "ID (testNode ''amsterdam'') \<noteq> PublisherNodeID testEnv"
    by simp
  have h4: "GetDailyForecast testEnv (APIKey (testApp [])) (ID (testNode ''amsterdam''))
        (language (testNode ''amsterdam'')) = Inr \<lparr>List = Some [testDay1, testDay2]\<rparr>"
    by simp
  have h5: "List \<lparr>List = Some [testDay1, testDay2]\<rparr> = Some [testDay1, testDay2]"
    by simp
  have entries:
    "weatherEntry testDay1 = \<lparr>Timestamp = Unix 1600000000 0, Value = ''clear sky''\<rparr>"
    "weatherEntry testDay2 = \<lparr>Timestamp = Unix 1600086400 0, Value = ''''\<rparr>"
    "maxTempEntry testEnv testDay1 = \<lparr>Timestamp = Unix 1600000000 0, Value = ''21.0''\<rparr>"
    "maxTempEntry testEnv testDay2 = \<lparr>Timestamp = Unix 1600086400 0, Value = ''23.0''\<rparr>"
    "minTempEntry testEnv testDay2 = \<lparr>Timestamp = Unix 1600086400 0, Value = ''14.0''\<rparr>"
    by (simp_all add: weatherEntry_def maxTempEntry_def minTempEntry_def testDay1_def
          testDay2_def testEnv_def Sprintf_d_def)
  have "UpdateForecast testEnv (testApp [])
        (testPub [testPublisherNode, testNode ''amsterdam'', testNode ''zurich''])
      = concat (map (UpdateForecast_city testEnv (APIKey (testApp []))) [testPublisherNode])
        @ [PublishForecast (testNode ''amsterdam'') IOTypeWeather ForecastWeatherInst
             (map weatherEntry [testDay1, testDay2]),
           PublishForecast (testNode ''amsterdam'') IOTypeTemperature ''max''
             (map (maxTempEntry testEnv) [testDay1, testDay2]),
           PublishForecast (testNode ''amsterdam'') IOTypeTemperature ''min''
             (if [testDay1, testDay2] = [] then []
              else map (maxTempEntry testEnv) [testDay1, testDay2]
                   @ [minTempEntry testEnv (last [testDay1, testDay2])])]
        @ UpdateForecast_loop testEnv (APIKey (testApp [])) [testNode ''zurich'']"
    using UpdateForecast_min_list [OF h1 h2 h3 h4 h5] by blast
  then have "UpdateForecast testEnv (testApp [])
        (testPub [testPublisherNode, testNode ''amsterdam'', testNode ''zurich''])
      = [PublishForecast (testNode ''amsterdam'') IOTypeWeather ''forecast''
           [\<lparr>Timestamp = Unix 1600000000 0, Value = ''clear sky''\<rparr>,
            \<lparr>Timestamp = Unix 1600086400 0, Value = ''''\<rparr>],
         PublishForecast (testNode ''amsterdam'') IOTypeTemperature ''max''
           [\<lparr>Timestamp = Unix 1600000000 0, Value = ''21.0''\<rparr>,
            \<lparr>Timestamp = Unix 1600086400 0, Value = ''23.0''\<rparr>],
         PublishForecast (testNode ''amsterdam'') IOTypeTemperature ''min''
           [\<lparr>Timestamp = Unix 1600000000 0, Value = ''21.0''\<rparr>,
            \<lparr>Timestamp = Unix 1600086400 0, Value = ''23.0''\<rparr>,
            \<lparr>Timestamp = Unix 1600086400 0, Value = ''14.0''\<rparr>],
         SetErrorStatus (testNode ''zurich'') ''Error getting the daily forecast'']"
    by (simp add: entries UpdateForecast_city_def ForecastWeatherInst_def)
  with h1 h2 h3 h4 h5 show ?thesis by simp
qed


text \<open>
  C3, as amended. When the cycle reaches a city for which the client returns
  an error or a response whose forecast list is nil, the city's node gets an
  error status ("Error getting the daily forecast", or "Daily forecast not
  provided") and the cycle ends there: no later node gets a call. A response
  whose list is empty but not nil is not a failure: three empty forecasts are
  published for the city and the cycle goes on with the next node.
\<close>

theorem UpdateForecast_abort:
  "(GetAllNodes weatherPub = earlier @ node # rest
    \<and> (\<forall>n\<in>set earlier. \<not> forecastFails env (APIKey weatherApp) n)
    \<and> forecastFails env (APIKey weatherApp) node
    \<longrightarrow> UpdateForecast env weatherApp weatherPub =
          concat (map (UpdateForecast_city env (APIKey weatherApp)) earlier)
          @ [SetErrorStatus node (forecastError env (APIKey weatherApp) node)]
        \<and> forecastError env (APIKey weatherApp) node
            \<in> {''Error getting the daily forecast'', ''Daily forecast not provided''})
   \<and> (GetAllNodes weatherPub = earlier' @ node' # rest'
      \<and> (\<forall>n\<in>set earlier'. \<not> forecastFails env (APIKey weatherApp) n)
      \<and> ID node' \<noteq> PublisherNodeID env
      \<and> GetDailyForecast env (APIKey weatherApp) (ID node') (language node')
           = Inr dailyForecast
      \<and> List dailyForecast = Some []
    \<longrightarrow> UpdateForecast env weatherApp weatherPub =
          concat (map (UpdateForecast_city env (APIKey weatherApp)) earlier')
          @ [PublishForecast node' IOTypeWeather ForecastWeatherInst [],
             PublishForecast node' IOTypeTemperature ''max'' [],
             PublishForecast node' IOTypeTemperature ''min'' []]
          @ UpdateForecast_loop env (APIKey weatherApp) rest')"
proof (intro conjI impI)
  assume a: "GetAllNodes weatherPub = earlier @ node # rest
    \<and> (\<forall>n\<in>set earlier. \<not> forecastFails env (APIKey weatherApp) n)
    \<and> forecastFails env (APIKey weatherApp) node"
  then have "UpdateForecast env weatherApp weatherPub =
       concat (map (UpdateForecast_city env (APIKey weatherApp)) earlier)
       @ UpdateForecast_loop env (APIKey weatherApp) (node # rest)"
    by (intro UpdateForecast_prefix) simp_all
  with a show "UpdateForecast env weatherApp weatherPub =
          concat (map (UpdateForecast_city env (APIKey weatherApp)) earlier)
          @ [SetErrorStatus node (forecastError env (APIKey weatherApp) node)]"
    by (simp add: UpdateForecast_loop_fails del: UpdateForecast_loop.simps)
  show "forecastError env (APIKey weatherApp) node
            \<in> {''Error getting the daily forecast'', ''Daily forecast not provided''}"
    by (simp add: forecastError_def)
next
  assume b: "GetAllNodes weatherPub = earlier' @ node' # rest'
      \<and> (\<forall>n\<in>set earlier'. \<not> forecastFails env (APIKey weatherApp) n)
      \<and> ID node' \<noteq> PublisherNodeID env
      \<and> GetDailyForecast env (APIKey weatherApp) (ID node') (language node')
           = Inr dailyForecast
      \<and> List dailyForecast = Some []"
  then have "UpdateForecast env weatherApp weatherPub =
       concat (map (UpdateForecast_city env (APIKey weatherApp)) earlier')
       @ UpdateForecast_loop env (APIKey weatherApp) (node' # rest')"
    by (intro UpdateForecast_prefix) simp_all
  moreover from b have "UpdateForecast_loop env (APIKey weatherApp) (node' # rest') =
       [PublishForecast node' IOTypeWeather ForecastWeatherInst [],
        PublishForecast node' IOTypeTemperature ''max'' [],
        PublishForecast node' IOTypeTemperature ''min'' []]
       @ UpdateForecast_loop env (APIKey weatherApp) rest'"
    by simp
  ultimately show "UpdateForecast env weatherApp weatherPub =
          concat (map (UpdateForecast_city env (APIKey weatherApp)) earlier')
          @ [PublishForecast node' IOTypeWeather ForecastWeatherInst [],
             PublishForecast node' IOTypeTemperature ''max'' [],
             PublishForecast node' IOTypeTemperature ''min'' []]
          @ UpdateForecast_loop env (APIKey weatherApp) rest'"
    by (simp del: UpdateForecast_loop.simps)
qed

theorem UpdateForecast_abort_witness:
  "GetAllNodes (testPub [testNode ''berlin'', testNode ''cairo'', testNode ''amsterdam''])
     = [testNode ''berlin''] @ testNode ''cairo'' # [testNode ''amsterdam'']
   \<and> \<not> forecastFails testEnv (APIKey (testApp [])) (testNode ''berlin'')
   \<and> forecastFails testEnv (APIKey (testApp [])) (testNode ''cairo'')
   \<and> GetAllNodes (testPub [testNode ''berlin'', testNode ''cairo'', testNode ''amsterdam''])
     = [] @ testNode ''berlin'' # [testNode ''cairo'', testNode ''amsterdam'']
   \<and> ID (testNode ''berlin'') \<noteq> PublisherNodeID testEnv
   \<and> GetDailyForecast testEnv (APIKey (testApp [])) (ID (testNode ''berlin''))
        (language (testNode ''berlin'')) = Inr \<lparr>List = Some []\<rparr>
   \<and> List \<lparr>List = Some ([] :: int Forecast list)\<rparr> = Some []
   \<and> UpdateForecast testEnv (testApp [])
        (testPub [testNode ''berlin'', testNode ''cairo'', testNode ''amsterdam''])
      = [PublishForecast (testNode ''berlin'') IOTypeWeather ''forecast'' [],
         PublishForecast (testNode ''berlin'') IOTypeTemperature ''max'' [],
         PublishForecast (testNode ''berlin'') IOTypeTemperature ''min'' [],
         SetErrorStatus (testNode ''cairo'') ''Daily forecast not provided'']
   \<and> UpdateForecast testEnv (testApp [])
        (testPub [testNode ''berlin'', testNode ''cairo'', testNode ''amsterdam''])
      = [PublishForecast (testNode ''berlin'') IOTypeWeather ''forecast'' [],
         PublishForecast (testNode ''berlin'') IOTypeTemperature ''max'' [],
         PublishForecast (testNode ''berlin'') IOTypeTemperature ''min'' []]
        @ UpdateForecast_loop testEnv (APIKey (testApp []))
            [testNode ''cairo'', testNode ''amsterdam'']"
proof -
  let ?pub = "testPub [testNode ''berlin'', testNode ''cairo'', testNode ''amsterdam'']"
  let ?k = "APIKey (testApp [])"
  have a1: "GetAllNodes ?pub = [testNode ''berlin''] @ testNode ''cairo'' # [testNode ''amsterdam'']"
    by simp
  have a2: "\<not> forecastFails testEnv ?k (testNode ''berlin'')"
    by (simp add: forecastFails_def)
  have a3: "forecastFails testEnv ?k (testNode ''cairo'')"
    by (simp add: forecastFails_def)
  have b1: "GetAllNodes ?pub = [] @ testNode ''berlin'' # [testNode ''cairo'', testNode ''amsterdam'']"
    by simp
  have b3: "ID (testNode ''berlin'') \<noteq> PublisherNodeID testEnv"
    by simp
  have b4: "GetDailyForecast testEnv ?k (ID (testNode ''berlin'')) (language (testNode ''berlin''))
              = Inr \<lparr>List = Some []\<rparr>"
    by simp
  have b5: "List \<lparr>List = Some ([] :: int Forecast list)\<rparr> = Some []"
    by simp
  note inst = UpdateForecast_abort [of ?pub "[testNode ''berlin'']" "testNode ''cairo''"
      "[testNode ''amsterdam'']" testEnv "testApp []" "[]" "testNode ''berlin''"
      "[testNode ''cairo'', testNode ''amsterdam'']" "\<lparr>List = Some []\<rparr>"]
  from inst a1 a2 a3 have "UpdateForecast testEnv (testApp []) ?pub =
          concat (map (UpdateForecast_city testEnv ?k) [testNode ''berlin''])
          @ [SetErrorStatus (testNode ''cairo'') (forecastError testEnv ?k (testNode ''cairo''))]"
    by simp
  then have c1: "UpdateForecast testEnv (testApp []) ?pub
      = [PublishForecast (testNode ''berlin'') IOTypeWeather ''forecast'' [],
         PublishForecast (testNode ''berlin'') IOTypeTemperature ''max'' [],
         PublishForecast (testNode ''berlin'') IOTypeTemperature ''min'' [],
         SetErrorStatus (testNode ''cairo'') ''Daily forecast not provided'']"
    by (simp add: UpdateForecast_city_def forecastError_def ForecastWeatherInst_def)
  from inst b1 b3 b4 b5 have c2: "UpdateForecast testEnv (testApp []) ?pub
      = [PublishForecast (testNode ''berlin'') IOTypeWeather ''forecast'' [],
         PublishForecast (testNode ''berlin'') IOTypeTemperature ''max'' [],
         PublishForecast (testNode ''berlin'') IOTypeTemperature ''min'' []]
        @ UpdateForecast_loop testEnv ?k [testNode ''cairo'', testNode ''amsterdam'']"
    by (simp add: ForecastWeatherInst_def del: UpdateForecast_loop.simps)
  from a1 a2 a3 b1 b3 b4 b5 c1 c2 show ?thesis
    by (simp del: UpdateForecast_loop.simps)
qed

text \<open>
  C3 as stated fails on an empty list. Berlin's forecast has an empty list
  that is not nil: the cycle sets no error status, publishes three empty
  forecasts for Berlin and goes on to publish the forecasts of Amsterdam.
\<close>

theorem UpdateForecast_empty_list_counterexample:
  "ID (testNode ''berlin'') \<noteq> PublisherNodeID testEnv
   \<and> GetDailyForecast testEnv (APIKey (testApp [])) (ID (testNode ''berlin''))
        (language (testNode ''berlin'')) = Inr \<lparr>List = Some []\<rparr>
   \<and> statuses (UpdateForecast testEnv (testApp [])
        (testPub [testNode ''berlin'', testNode ''amsterdam''])) = []
   \<and> UpdateForecast testEnv (testApp [])
        (testPub [testNode ''berlin'', testNode ''amsterdam''])
      = [PublishForecast (testNode ''berlin'') IOTypeWeather ''forecast'' [],
         PublishForecast (testNode ''berlin'') IOTypeTemperature ''max'' [],
         PublishForecast (testNode ''berlin'') IOTypeTemperature ''min'' [],
         PublishForecast (testNode ''amsterdam'') IOTypeWeather ''forecast''
           [\<lparr>Timestamp = Unix 1600000000 0, Value = ''clear sky''\<rparr>,
            \<lparr>Timestamp = Unix 1600086400 0, Value = ''''\<rparr>],
         PublishForecast (testNode ''amsterdam'') IOTypeTemperature ''max''
           [\<lparr>Timestamp = Unix 1600000000 0, Value = ''21.0''\<rparr>,
            \<lparr>Timestamp = Unix 1600086400 0, Value = ''23.0''\<rparr>],
         PublishForecast (testNode ''amsterdam'') IOTypeTemperature ''min''
           [\<lparr>Timestamp = Unix 1600000000 0, Value = ''21.0''\<rparr>,
            \<lparr>Timestamp = Unix 1600086400 0, Value = ''23.0''\<rparr>,
            \<lparr>Timestamp = Unix 1600086400 0, Value = ''14.0''\<rparr>]]"
proof -
  have trace: "UpdateForecast testEnv (testApp [])
        (testPub [testNode ''berlin'', testNode ''amsterdam''])
      = [PublishForecast (testNode ''berlin'') IOTypeWeather ''forecast'' [],
         PublishForecast (testNode ''berlin'') IOTypeTemperature ''max'' [],
         PublishForecast (testNode ''berlin'') IOTypeTemperature ''min'' [],
         PublishForecast (testNode ''amsterdam'') IOTypeWeather ''forecast''
           [\<lparr>Timestamp = Unix 1600000000 0, Value = ''clear sky''\<rparr>,
            \<lparr>Timestamp = Unix 1600086400 0, Value = ''''\<rparr>],
         PublishForecast (testNode ''amsterdam'') IOTypeTemperature ''max''
           [\<lparr>Timestamp = Unix 1600000000 0, Value = ''21.0''\<rparr>,
            \<lparr>Timestamp = Unix 1600086400 0, Value = ''23.0''\<rparr>],
         PublishForecast (testNode ''amsterdam'') IOTypeTemperature ''min''
           [\<lparr>Timestamp = Unix 1600000000 0, Value = ''21.0''\<rparr>,
            \<lparr>Timestamp = Unix 1600086400 0, Value = ''23.0''\<rparr>,
            \<lparr>Timestamp = Unix 1600086400 0, Value = ''14.0''\<rparr>]]"
    by (simp add: UpdateForecast_def ForecastWeatherInst_def Let_def testDay1_def testDay2_def
          testEnv_def Sprintf_d_def)
  have "statuses (UpdateForecast testEnv (testApp [])
        (testPub [testNode ''berlin'', testNode ''amsterdam''])) = []"
    unfolding trace by (simp add: statuses_def)
  with trace show ?thesis by simp
qed


section \<open>Provisioning\<close>

lemma run_Nil [simp]: "run [] pub = pub"
  by (simp add: run_def)

lemma run_Cons [simp]: "run (c # calls) pub = run calls (exec c pub)"
  by (simp add: run_def)

lemma run_append [simp]: "run (xs @ ys) pub = run ys (run xs pub)"
  by (simp add: run_def)

lemma created_append [simp]: "created (xs @ ys) = created xs @ created ys"
  by (simp add: created_def)

lemma NewNode_ID [simp]: "ID (NewNode zone publisherID city) = city"
  by (simp add: NewNode_def)

lemma NewNode_Config [simp]: "Config (NewNode zone publisherID city) = Map.empty"
  by (simp add: NewNode_def)

lemma attach_ID [simp]: "ID (attach attr n) = ID n"
  by (simp add: attach_def)

lemma attach_idem [simp]: "attach attr (attach attr n) = attach attr n"
  by (simp add: attach_def split: option.splits)

lemma PublishNodes_city_calls:
  "PublishNodes_city zone publisherID city =
     UpdateNode (NewNode zone publisherID city)
     # UpdateNodeConfig (NewNode zone publisherID city) languageEntry
     # map (\<lambda>(ioType, instance). NewOutput (NewNode zone publisherID city) ioType instance)
         fixedOutputs"
  by (simp add: PublishNodes_city_def Let_def languageEntry_def fixedOutputs_def
        CurrentWeatherInst_def LastHourWeatherInst_def ForecastWeatherInst_def)

lemma created_Cons [simp]: "created (c # calls) = createdBy c @ created calls"
  by (simp add: created_def)

lemma created_Nil [simp]: "created [] = []"
  by (simp add: created_def)

lemma created_NewOutputs:
  "created (map (\<lambda>(ioType, instance). NewOutput node ioType instance) keys)
     = map (Pair (ID node)) keys"
  by (induction keys) auto

lemma created_PublishNodes_city:
  "created (PublishNodes_city zone publisherID city) = cityOutputs city"
  by (simp add: PublishNodes_city_calls cityOutputs_def created_NewOutputs)

subsection \<open>Creating outputs\<close>

lemma NewOutputs_Nodes [simp]:
  "Nodes (run (map (\<lambda>(ioType, instance). NewOutput node ioType instance) keys) pub) = Nodes pub"
  by (induction keys arbitrary: pub) auto

lemma NewOutputs_Outputs:
  "set (Outputs (run (map (\<lambda>(ioType, instance). NewOutput node ioType instance) keys) pub))
     = set (Outputs pub) \<union> Pair (ID node) ` set keys"
proof (induction keys arbitrary: pub)
  case Nil
  show ?case by simp
next
  case (Cons key keys)
  obtain ioType inst where key: "key = (ioType, inst)"
    by (cases key)
  have "set (Outputs (exec (NewOutput node ioType inst) pub))
          = insert (ID node, ioType, inst) (set (Outputs pub))"
    by auto
  then show ?case
    by (simp add: key Cons.IH del: exec.simps)
qed

lemma NewOutputs_fix:
  "Pair (ID node) ` set keys \<subseteq> set (Outputs pub) \<Longrightarrow>
     run (map (\<lambda>(ioType, instance). NewOutput node ioType instance) keys) pub = pub"
  by (induction keys arbitrary: pub) auto

subsection \<open>A provisioned city stays provisioned\<close>

lemma provisioned_UpdateNode:
  "provisioned city pub \<Longrightarrow>
     provisioned city (exec (UpdateNode (NewNode zone publisherID city')) pub)"
  by (auto simp: provisioned_def)

lemma provisioned_UpdateNodeConfig:
  "provisioned city pub \<Longrightarrow>
     provisioned city (exec (UpdateNodeConfig (NewNode zone publisherID city') languageEntry) pub)"
  by (auto simp: provisioned_def image_iff)

lemma provisioned_NewOutputs:
  "provisioned city pub \<Longrightarrow>
     provisioned city
       (run (map (\<lambda>(ioType, instance). NewOutput node ioType instance) keys) pub)"
  by (auto simp: provisioned_def NewOutputs_Outputs)

lemma provisioned_city_preserved:
  "provisioned city pub \<Longrightarrow>
     provisioned city (run (PublishNodes_city zone publisherID city') pub)"
  unfolding PublishNodes_city_calls run_Cons
  by (intro provisioned_NewOutputs provisioned_UpdateNodeConfig provisioned_UpdateNode)

lemma UpdateNode_member: "ID node \<in> ID ` set (Nodes (exec (UpdateNode node) pub))"
  by simp

lemma attach_map_IDs:
  "map ID (map (\<lambda>n. if ID n = nodeID then attach attr n else n) nodes) = map ID nodes"
  by (induction nodes) simp_all

lemma attach_map_set_IDs:
  "ID ` set (map (\<lambda>n. if ID n = nodeID then attach attr n else n) nodes) = ID ` set nodes"
proof -
  let ?f = "\<lambda>n. if ID n = nodeID then attach attr n else n"
  have "ID ` set (map ?f nodes) = set (map ID (map ?f nodes))"
    by (rule set_map [symmetric])
  also have "\<dots> = set (map ID nodes)"
    by (simp only: attach_map_IDs)
  also have "\<dots> = ID ` set nodes"
    by (rule set_map)
  finally show ?thesis .
qed

lemma attach_map_attached:
  "\<forall>n\<in>set (map (\<lambda>n. if ID n = nodeID then attach attr n else n) nodes).
      ID n = nodeID \<longrightarrow> attach attr n = n"
proof (intro ballI impI)
  fix n
  assume n: "n \<in> set (map (\<lambda>n. if ID n = nodeID then attach attr n else n) nodes)"
    and nodeID: "ID n = nodeID"
  from n obtain m where m: "n = (if ID m = nodeID then attach attr m else m)"
    by (auto simp only: set_map)
  show "attach attr n = n"
  proof (cases "ID m = nodeID")
    case True
    with m have "n = attach attr m" by simp
    then show ?thesis by (simp only: attach_idem)
  next
    case False
    with m have "n = m" by simp
    with False nodeID show ?thesis by simp
  qed
qed

lemma UpdateNodeConfig_Nodes:
  "Nodes (exec (UpdateNodeConfig node attr) pub)
     = map (\<lambda>n. if ID n = ID node then attach attr n else n) (Nodes pub)"
  by simp

lemma UpdateNodeConfig_IDs:
  "ID ` set (Nodes (exec (UpdateNodeConfig node attr) pub)) = ID ` set (Nodes pub)"
  unfolding UpdateNodeConfig_Nodes by (rule attach_map_set_IDs)

lemma UpdateNodeConfig_attached:
  "\<forall>n\<in>set (Nodes (exec (UpdateNodeConfig node attr) pub)).
      ID n = ID node \<longrightarrow> attach attr n = n"
  unfolding UpdateNodeConfig_Nodes by (rule attach_map_attached)

lemma provisioned_city_established:
  "provisioned city (run (PublishNodes_city zone publisherID city) pub)"
proof -
  let ?node = "NewNode zone publisherID city"
  let ?s1 = "exec (UpdateNode ?node) pub"
  let ?s2 = "exec (UpdateNodeConfig ?node languageEntry) ?s1"
  let ?outputs = "map (\<lambda>(ioType, instance). NewOutput ?node ioType instance) fixedOutputs"
  have node: "ID ?node = city"
    by simp
  have "ID ?node \<in> ID ` set (Nodes ?s1)"
    by (rule UpdateNode_member)
  then have n2: "city \<in> ID ` set (Nodes ?s2)"
    unfolding UpdateNodeConfig_IDs node .
  have a2: "\<forall>n\<in>set (Nodes ?s2). ID n = city \<longrightarrow> attach languageEntry n = n"
    using UpdateNodeConfig_attached [of ?node languageEntry ?s1] unfolding node .
  have o3: "set (cityOutputs city) \<subseteq> set (Outputs (run ?outputs ?s2))"
    unfolding NewOutputs_Outputs cityOutputs_def node by (simp only: set_map) (rule Un_upper2)
  show ?thesis
    unfolding PublishNodes_city_calls run_Cons provisioned_def NewOutputs_Nodes
    using n2 a2 o3 by (intro conjI)
qed

lemma provisioned_city_fix:
  assumes "provisioned city pub"
  shows "run (PublishNodes_city zone publisherID city) pub = pub"
proof -
  let ?node = "NewNode zone publisherID city"
  let ?outputs = "map (\<lambda>(ioType, instance). NewOutput ?node ioType instance) fixedOutputs"
  from assms have member: "city \<in> ID ` set (Nodes pub)"
    and attached: "\<And>n. n \<in> set (Nodes pub) \<Longrightarrow> ID n = city \<Longrightarrow> attach languageEntry n = n"
    and outputs: "set (cityOutputs city) \<subseteq> set (Outputs pub)"
    unfolding provisioned_def by blast+
  have s1: "exec (UpdateNode ?node) pub = pub"
    using member by simp
  have "map (\<lambda>n. if ID n = ID ?node then attach languageEntry n else n) (Nodes pub) = Nodes pub"
  proof (rule map_idI)
    fix n
    assume "n \<in> set (Nodes pub)"
    then show "(if ID n = ID ?node then attach languageEntry n else n) = n"
      using attached [of n] by (cases "ID n = city") simp_all
  qed
  then have s2: "exec (UpdateNodeConfig ?node languageEntry) pub = pub"
    by (simp only: exec.simps) simp
  have "Pair (ID ?node) ` set fixedOutputs \<subseteq> set (Outputs pub)"
    using outputs by (simp add: cityOutputs_def)
  then have s3: "run ?outputs pub = pub"
    by (rule NewOutputs_fix)
  have "run (PublishNodes_city zone publisherID city) pub
          = run ?outputs (exec (UpdateNodeConfig ?node languageEntry) (exec (UpdateNode ?node) pub))"
    by (simp only: PublishNodes_city_calls run_Cons)
  also have "\<dots> = run ?outputs (exec (UpdateNodeConfig ?node languageEntry) pub)"
    by (simp only: s1)
  also have "\<dots> = run ?outputs pub"
    by (simp only: s2)
  also have "\<dots> = pub"
    by (rule s3)
  finally show ?thesis .
qed

lemma provisioned_loop_preserved:
  "provisioned city pub \<Longrightarrow>
     provisioned city (run (PublishNodes_loop zone publisherID cities) pub)"
  by (induction cities arbitrary: pub) (simp_all add: provisioned_city_preserved)

lemma provisioned_loop_established:
  "city \<in> set cities \<Longrightarrow>
     provisioned city (run (PublishNodes_loop zone publisherID cities) pub)"
proof (induction cities arbitrary: pub)
  case Nil
  then show ?case by simp
next
  case (Cons c cities)
  show ?case
  proof (cases "city = c")
    case True
    then show ?thesis
      by (simp add: provisioned_city_established provisioned_loop_preserved)
  next
    case False
    with Cons show ?thesis by simp
  qed
qed

lemma provisioned_loop_fix:
  "\<forall>city\<in>set cities. provisioned city pub \<Longrightarrow>
     run (PublishNodes_loop zone publisherID cities) pub = pub"
  by (induction cities) (simp_all add: provisioned_city_fix)

lemma exec_PublisherNode [simp]: "PublisherNode (exec c pub) = PublisherNode pub"
  by (cases c) simp_all

lemma run_PublisherNode [simp]: "PublisherNode (run calls pub) = PublisherNode pub"
  by (induction calls arbitrary: pub) simp_all

text \<open>
  C7. In the registry modelled from the spec, provisioning a second time with
  the same city list, on the state that the first provisioning left, changes
  nothing: the registry of nodes, their configuration and the output keys are
  the same state, so no node and no output is added.
\<close>

theorem PublishNodes_idempotent:
  "run (PublishNodes weatherApp (run (PublishNodes weatherApp weatherPub) weatherPub))
       (run (PublishNodes weatherApp weatherPub) weatherPub)
     = run (PublishNodes weatherApp weatherPub) weatherPub"
proof -
  let ?zone = "Zone (PublisherNode weatherPub)"
  let ?loop = "PublishNodes_loop ?zone (PublisherID weatherApp) (Cities weatherApp)"
  have first: "PublishNodes weatherApp weatherPub = ?loop"
    by (simp add: PublishNodes_def)
  have second: "PublishNodes weatherApp (run ?loop weatherPub) = ?loop"
    by (simp add: PublishNodes_def)
  have "\<forall>city\<in>set (Cities weatherApp). provisioned city (run ?loop weatherPub)"
    by (simp add: provisioned_loop_established)
  then have "run ?loop (run ?loop weatherPub) = run ?loop weatherPub"
    by (rule provisioned_loop_fix)
  then show ?thesis
    by (simp only: first second)
qed


theorem PublishNodes_idempotent_witness:
  "map ID (Nodes (run (PublishNodes (testApp [''amsterdam'', ''berlin'']) (testPub []))
                      (testPub [])))
     = [''amsterdam'', ''berlin'']
   \<and> Outputs (run (PublishNodes (testApp [''amsterdam'', ''berlin'']) (testPub [])) (testPub []))
     = cityOutputs ''amsterdam'' @ cityOutputs ''berlin''
   \<and> run (PublishNodes (testApp [''amsterdam'', ''berlin''])
            (run (PublishNodes (testApp [''amsterdam'', ''berlin'']) (testPub [])) (testPub [])))
         (run (PublishNodes (testApp [''amsterdam'', ''berlin'']) (testPub [])) (testPub []))
     = run (PublishNodes (testApp [''amsterdam'', ''berlin'']) (testPub [])) (testPub [])"
proof -
  have nodes: "map ID (Nodes (run (PublishNodes (testApp [''amsterdam'', ''berlin'']) (testPub []))
                      (testPub [])))
     = [''amsterdam'', ''berlin'']"
    by (simp add: PublishNodes_def Let_def PublishNodes_city_calls testApp_def testPub_def fixedOutputs_def)
  have outputs: "Outputs (run (PublishNodes (testApp [''amsterdam'', ''berlin'']) (testPub []))
                      (testPub []))
     = cityOutputs ''amsterdam'' @ cityOutputs ''berlin''"
    by (simp add: PublishNodes_def Let_def PublishNodes_city_calls testApp_def testPub_def fixedOutputs_def
          cityOutputs_def)
  from nodes outputs
    PublishNodes_idempotent [of "testApp [''amsterdam'', ''berlin'']" "testPub []"]
  show ?thesis by (intro conjI)
qed

subsection \<open>The language entry\<close>

lemma find_snoc:
  "find P (xs @ [y]) = (case find P xs of None \<Rightarrow> (if P y then Some y else None) | Some x \<Rightarrow> Some x)"
  by (induction xs) simp_all

lemma find_attach:
  "find (\<lambda>n. ID n = city) (map (\<lambda>n. if ID n = nodeID then attach attr n else n) nodes)
     = map_option (\<lambda>n. if ID n = nodeID then attach attr n else n)
         (find (\<lambda>n. ID n = city) nodes)"
  by (induction nodes) simp_all

lemma find_ID: "find (\<lambda>n. ID n = city) nodes = Some n \<Longrightarrow> ID n = city"
  by (induction nodes) (simp_all split: if_splits)

lemma find_member:
  "city \<in> ID ` set nodes \<Longrightarrow> \<exists>n. find (\<lambda>n. ID n = city) nodes = Some n"
  by (induction nodes) auto

lemma languageEntry_ConfigID [simp]: "ConfigID languageEntry = ''language''"
  by (simp add: languageEntry_def NewConfig_def)

lemma attach_language:
  "Config (attach languageEntry n) ''language'' =
     Some (case Config n ''language'' of
             None \<Rightarrow> languageEntry
           | Some prior \<Rightarrow> languageEntry\<lparr>ConfigAttr.Value := ConfigAttr.Value prior\<rparr>)"
  by (simp add: attach_def)

lemma languageEntry_Default [simp]: "Default languageEntry = ''en''"
  by (simp add: languageEntry_def NewConfig_def)

lemma languageEntry_Value [simp]: "ConfigAttr.Value languageEntry = ''en''"
  by (simp add: languageEntry_def NewConfig_def)

lemma languageInForce_UpdateNode:
  "languageInForce (exec (UpdateNode (NewNode zone publisherID city')) pub) city
     = languageInForce pub city"
  by (simp add: languageInForce_def GetNodeByID_def find_snoc split: option.splits)

lemma languageInForce_UpdateNodeConfig:
  "languageInForce (exec (UpdateNodeConfig (NewNode zone publisherID city') languageEntry) pub) city
     = languageInForce pub city"
proof (cases "find (\<lambda>n. ID n = city) (Nodes pub)")
  case None
  then show ?thesis
    by (simp add: languageInForce_def GetNodeByID_def find_attach)
next
  case (Some n)
  then show ?thesis
    by (simp add: languageInForce_def GetNodeByID_def find_attach attach_language
          split: option.splits)
qed

lemma languageInForce_Nodes:
  "Nodes pub' = Nodes pub \<Longrightarrow> languageInForce pub' city = languageInForce pub city"
  by (simp add: languageInForce_def GetNodeByID_def)

lemma languageInForce_city:
  "languageInForce (run (PublishNodes_city zone publisherID city') pub) city
     = languageInForce pub city"
proof -
  let ?node = "NewNode zone publisherID city'"
  let ?s1 = "exec (UpdateNode ?node) pub"
  let ?s2 = "exec (UpdateNodeConfig ?node languageEntry) ?s1"
  let ?s3 = "run (map (\<lambda>(ioType, instance). NewOutput ?node ioType instance) fixedOutputs) ?s2"
  have "languageInForce ?s3 city = languageInForce ?s2 city"
    by (rule languageInForce_Nodes) (rule NewOutputs_Nodes)
  also have "\<dots> = languageInForce ?s1 city"
    by (rule languageInForce_UpdateNodeConfig)
  also have "\<dots> = languageInForce pub city"
    by (rule languageInForce_UpdateNode)
  finally show ?thesis
    by (simp only: PublishNodes_city_calls run_Cons)
qed

lemma languageInForce_loop:
  "languageInForce (run (PublishNodes_loop zone publisherID cities) pub) city
     = languageInForce pub city"
  by (induction cities arbitrary: pub) (simp_all add: languageInForce_city)

lemma hasLanguageEntry_UpdateNode:
  assumes "hasLanguageEntry pub city"
  shows "hasLanguageEntry (exec (UpdateNode node) pub) city"
proof -
  from assms obtain n where n: "find (\<lambda>n. ID n = city) (Nodes pub) = Some n"
    by (auto simp: hasLanguageEntry_def GetNodeByID_def split: option.splits)
  then have "find (\<lambda>n. ID n = city) (Nodes (exec (UpdateNode node) pub)) = Some n"
    by (simp add: find_snoc)
  with assms n show ?thesis
    by (simp add: hasLanguageEntry_def GetNodeByID_def del: exec.simps)
qed

lemma hasLanguageEntry_UpdateNodeConfig:
  assumes "hasLanguageEntry pub city"
  shows "hasLanguageEntry (exec (UpdateNodeConfig (NewNode zone publisherID city') languageEntry) pub) city"
proof (cases "find (\<lambda>n. ID n = city) (Nodes pub)")
  case None
  with assms show ?thesis
    by (simp add: hasLanguageEntry_def GetNodeByID_def)
next
  case (Some n)
  with assms show ?thesis
    by (simp add: hasLanguageEntry_def GetNodeByID_def find_attach attach_language
          split: option.splits)
qed

lemma hasLanguageEntry_Nodes:
  "Nodes pub' = Nodes pub \<Longrightarrow> hasLanguageEntry pub' city = hasLanguageEntry pub city"
  by (simp add: hasLanguageEntry_def GetNodeByID_def)

lemma hasLanguageEntry_city_preserved:
  assumes "hasLanguageEntry pub city"
  shows "hasLanguageEntry (run (PublishNodes_city zone publisherID city') pub) city"
proof -
  let ?node = "NewNode zone publisherID city'"
  let ?s1 = "exec (UpdateNode ?node) pub"
  let ?s2 = "exec (UpdateNodeConfig ?node languageEntry) ?s1"
  let ?s3 = "run (map (\<lambda>(ioType, instance). NewOutput ?node ioType instance) fixedOutputs) ?s2"
  from assms have "hasLanguageEntry ?s1 city"
    by (rule hasLanguageEntry_UpdateNode)
  then have "hasLanguageEntry ?s2 city"
    by (rule hasLanguageEntry_UpdateNodeConfig)
  moreover have "hasLanguageEntry ?s3 city = hasLanguageEntry ?s2 city"
    by (rule hasLanguageEntry_Nodes) (rule NewOutputs_Nodes)
  ultimately have "hasLanguageEntry ?s3 city"
    by simp
  then show ?thesis
    by (simp only: PublishNodes_city_calls run_Cons)
qed

lemma hasLanguageEntry_city_established:
  "hasLanguageEntry (run (PublishNodes_city zone publisherID city) pub) city"
proof -
  let ?node = "NewNode zone publisherID city"
  let ?s1 = "exec (UpdateNode ?node) pub"
  let ?s2 = "exec (UpdateNodeConfig ?node languageEntry) ?s1"
  let ?s3 = "run (map (\<lambda>(ioType, instance). NewOutput ?node ioType instance) fixedOutputs) ?s2"
  have "ID ?node \<in> ID ` set (Nodes ?s1)"
    by (rule UpdateNode_member)
  then have "city \<in> ID ` set (Nodes ?s1)"
    by (simp only: NewNode_ID)
  then obtain n where n: "find (\<lambda>n. ID n = city) (Nodes ?s1) = Some n"
    using find_member by blast
  then have "ID n = city"
    by (rule find_ID)
  with n have "find (\<lambda>n. ID n = city) (Nodes ?s2) = Some (attach languageEntry n)"
    by (simp only: UpdateNodeConfig_Nodes find_attach NewNode_ID) simp
  then have "hasLanguageEntry ?s2 city"
    by (simp add: hasLanguageEntry_def GetNodeByID_def attach_language split: option.splits
          del: exec.simps)
  moreover have "hasLanguageEntry ?s3 city = hasLanguageEntry ?s2 city"
    by (rule hasLanguageEntry_Nodes) (rule NewOutputs_Nodes)
  ultimately have "hasLanguageEntry ?s3 city"
    by simp
  then show ?thesis
    by (simp only: PublishNodes_city_calls run_Cons)
qed

lemma hasLanguageEntry_loop_preserved:
  "hasLanguageEntry pub city \<Longrightarrow>
     hasLanguageEntry (run (PublishNodes_loop zone publisherID cities) pub) city"
  by (induction cities arbitrary: pub) (simp_all add: hasLanguageEntry_city_preserved)

lemma hasLanguageEntry_loop_established:
  "city \<in> set cities \<Longrightarrow>
     hasLanguageEntry (run (PublishNodes_loop zone publisherID cities) pub) city"
proof (induction cities arbitrary: pub)
  case Nil
  then show ?case by simp
next
  case (Cons c cities)
  show ?case
  proof (cases "city = c")
    case True
    then show ?thesis
      by (simp add: hasLanguageEntry_city_established hasLanguageEntry_loop_preserved)
  next
    case False
    with Cons show ?thesis by simp
  qed
qed

text \<open>
  C8. In the registry modelled from the spec, after provisioning every
  configured city has a node with a "language" entry whose default is "en".
  The entry's value is the language in force before: the value of the node's
  earlier entry when the registry already held one, and "en" when the node or
  its entry is new.
\<close>

theorem PublishNodes_language:
  assumes "city \<in> set (Cities weatherApp)"
  shows "\<exists>n c. GetNodeByID (run (PublishNodes weatherApp weatherPub) weatherPub) city = Some n
           \<and> Config n ''language'' = Some c
           \<and> Default c = ''en''
           \<and> ConfigAttr.Value c = languageInForce weatherPub city"
proof -
  let ?pub' = "run (PublishNodes weatherApp weatherPub) weatherPub"
  have "hasLanguageEntry ?pub' city"
    using assms by (simp add: PublishNodes_def hasLanguageEntry_loop_established)
  moreover have "languageInForce ?pub' city = languageInForce weatherPub city"
    by (simp add: PublishNodes_def languageInForce_loop)
  ultimately show ?thesis
    by (auto simp: hasLanguageEntry_def languageInForce_def split: option.splits)
qed

theorem PublishNodes_language_witness:
  "''amsterdam'' \<in> set (Cities (testApp [''amsterdam'']))
   \<and> languageInForce (testPub []) ''amsterdam'' = ''en''
   \<and> languageInForce (testPub [testNodeDutch]) ''amsterdam'' = ''nl''
   \<and> (\<exists>n c. GetNodeByID (run (PublishNodes (testApp [''amsterdam'']) (testPub [])) (testPub []))
               ''amsterdam'' = Some n
           \<and> Config n ''language'' = Some c \<and> Default c = ''en'' \<and> ConfigAttr.Value c = ''en'')
   \<and> (\<exists>n c. GetNodeByID (run (PublishNodes (testApp [''amsterdam'']) (testPub [testNodeDutch]))
                            (testPub [testNodeDutch]))
               ''amsterdam'' = Some n
           \<and> Config n ''language'' = Some c \<and> Default c = ''en'' \<and> ConfigAttr.Value c = ''nl'')"
proof -
  have h: "''amsterdam'' \<in> set (Cities (testApp [''amsterdam'']))"
    by (simp add: testApp_def)
  have new: "languageInForce (testPub []) ''amsterdam'' = ''en''"
    by (simp add: languageInForce_def GetNodeByID_def testPub_def)
  have dutch: "languageInForce (testPub [testNodeDutch]) ''amsterdam'' = ''nl''"
    by (simp add: languageInForce_def GetNodeByID_def testPub_def testNodeDutch_def attach_def
          NewNode_def NewConfig_def)
  from PublishNodes_language [OF h, of "testPub []"]
    PublishNodes_language [OF h, of "testPub [testNodeDutch]"]
  show ?thesis
    unfolding new dutch using h new dutch by blast
qed


lemma created_PublishNodes_loop:
  "created (PublishNodes_loop zone publisherID cities) = concat (map cityOutputs cities)"
  by (induction cities) (simp_all add: created_PublishNodes_city)

text \<open>
  C1 fails on the code at its last output. For the city list [amsterdam] the
  outputs that \<open>PublishNodes\<close> creates are, in order, the ten that the claim
  names and then (atmospheric pressure, min): line 64 names the pressure type
  where the claim, and \<open>UpdateForecast\<close>, which publishes to (temperature,
  min), have the temperature type. No (temperature, min) output is created.
\<close>

theorem PublishNodes_outputs_amsterdam:
  "created (PublishNodes (testApp [''amsterdam'']) (testPub [])) =
     [(''amsterdam'', IOTypeWeather, ''current''),
      (''amsterdam'', IOTypeTemperature, ''current''),
      (''amsterdam'', IOTypeHumidity, ''current''),
      (''amsterdam'', IOTypeAtmosphericPressure, ''current''),
      (''amsterdam'', IOTypeWindHeading, ''current''),
      (''amsterdam'', IOTypeWindSpeed, ''current''),
      (''amsterdam'', IOTypeRain, ''hour''),
      (''amsterdam'', IOTypeSnow, ''hour''),
      (''amsterdam'', IOTypeWeather, ''forecast''),
      (''amsterdam'', IOTypeTemperature, ''max''),
      (''amsterdam'', IOTypeAtmosphericPressure, ''min'')]
   \<and> (''amsterdam'', IOTypeTemperature, ''min'')
       \<notin> set (created (PublishNodes (testApp [''amsterdam'']) (testPub [])))"
  by (simp add: PublishNodes_def created_PublishNodes_city testApp_def cityOutputs_def
        fixedOutputs_def)


section \<open>The configuration handler\<close>

text \<open>
  C9. The configuration handler returns nil, leaves the application state as
  it was and makes no framework call, so the registry of nodes and outputs is
  the same after the call.
\<close>

theorem OnNodeConfigHandler_no_change:
  "OnNodeConfigHandler weatherApp node config = (None, weatherApp, [])
   \<and> run (snd (snd (OnNodeConfigHandler weatherApp node config))) weatherPub = weatherPub"
  by (simp add: OnNodeConfigHandler_def run_def)

end
